theory Spec2Isabelle
  imports
    Main
    "HOL-Library.Char_ord"
    "HOL-Library.List_Lexorder"
    "HOL-Library.Signed_Division"
begin

section \<open>The Mython interpreter: data model\<close>

text \<open>
  The embedding follows \<^verbatim>\<open>runtime.cpp\<close> (values, classes, comparison helpers),
  \<^verbatim>\<open>statement.cpp\<close> (the executable tree) and \<^verbatim>\<open>lexer.cpp\<close> with \<^verbatim>\<open>lexer.h\<close>
  (the tokenizer). The types that \<^verbatim>\<open>runtime.h\<close> and \<^verbatim>\<open>statement.h\<close> declare are
  modelled the way the \<^verbatim>\<open>.cpp\<close> files use them.
\<close>

subsection \<open>The statement tree\<close>

text \<open>
  \<^verbatim>\<open>Comparison\<close> stores a \<^verbatim>\<open>std::function\<close> comparator. The six functions of
  \<^verbatim>\<open>runtime.cpp\<close> with that signature are the comparators of the model.
\<close>

datatype Comparator =
  Cmp_Equal | Cmp_NotEqual | Cmp_Less | Cmp_Greater | Cmp_LessOrEqual | Cmp_GreaterOrEqual

type_synonym addr = nat

text \<open>
  Every node of \<^verbatim>\<open>statement.cpp\<close>. A \<^verbatim>\<open>std::unique_ptr<Statement>\<close> that the
  source tests against null before use (the operands of a binary operation and of
  \<^verbatim>\<open>Not\<close>, the else branch) is a \<open>Statement option\<close>; one that the source
  dereferences unchecked is a \<open>Statement\<close>.

  \<^verbatim>\<open>NewInstance\<close> keeps a member \<^verbatim>\<open>cls_\<close> on which \<^verbatim>\<open>statement.cpp\<close> calls
  \<^verbatim>\<open>cls_.HasMethod(name, n)\<close> and \<^verbatim>\<open>cls_.Call(name, args, context)\<close>; in
  \<^verbatim>\<open>runtime.cpp\<close> these are members of \<^verbatim>\<open>ClassInstance\<close> only, so the member is a
  \<^verbatim>\<open>ClassInstance\<close>, built from the class by the constructor of the node
  (\<^verbatim>\<open>cls_(class_)\<close>) and living as long as the node. The model keeps that object in
  the heap; the node holds its address.

  \<^verbatim>\<open>ClassDefinition\<close> keeps the holder of its class in a member and moves it out when
  it is executed. The model keeps these members in \<open>class_holders\<close> of the world; the
  node holds the number of its member.
\<close>

text \<open>
  Modelled from the spec: the literal nodes \<^verbatim>\<open>NumberLit\<close>, \<^verbatim>\<open>StringLit\<close>,
  \<^verbatim>\<open>BoolLit\<close> and \<^verbatim>\<open>NoneLit\<close>, whose classes \<^verbatim>\<open>statement.cpp\<close> does not define.
  All other nodes are those of \<^verbatim>\<open>statement.cpp\<close>.
\<close>

datatype Statement =
    NumberLit int
  | StringLit string
  | BoolLit bool
  | NoneLit
  | VariableValue "string list"
  | Assignment string Statement
  | FieldAssignment "string list" string Statement
  | NewInstance addr "Statement list"
  | MethodCall Statement string "Statement list"
  | Compound "Statement list"
  | Return Statement
  | MethodBody Statement
  | ClassDefinition addr
  | Print "Statement list"
  | Stringify Statement
  | Add "Statement option" "Statement option"
  | Sub "Statement option" "Statement option"
  | Mult "Statement option" "Statement option"
  | Div "Statement option" "Statement option"
  | Or "Statement option" "Statement option"
  | And "Statement option" "Statement option"
  | Not_op "Statement option"
  | Comparison Comparator "Statement option" "Statement option"
  | IfElse Statement Statement "Statement option"

subsection \<open>Classes and methods\<close>

datatype Method = Method (name: string) (formal_params: "string list") (body: Statement)

datatype Class = Class (GetName: string) (methods: "Method list") (parent: "Class option")

subsection \<open>Values and holders\<close>

text \<open>
  An \<^verbatim>\<open>ObjectHolder\<close> is a possibly null shared pointer to an object. Numbers,
  strings, booleans and classes are never changed after construction and are held by
  value; a class instance is mutable and shared, so its holder is the address of the
  instance in the heap. \<^verbatim>\<open>Own\<close> and \<^verbatim>\<open>Share\<close> differ in who frees the object only;
  the model never frees, so both are the plain address.
\<close>

datatype ObjectHolder =
    NoneObj
  | Number int
  | String string
  | Bool bool
  | ClassObj Class
  | ClassInstance addr

type_synonym Closure = "string \<Rightarrow> ObjectHolder option"

record Instance =
  cls :: Class
  Fields :: Closure

section \<open>Method lookup (runtime.cpp)\<close>

text \<open>
  \<^verbatim>\<open>Class::GetMethod(name)\<close>: the first method of that name among the class's own
  methods, else the parent's answer, else null.
\<close>

fun GetMethod :: "Class \<Rightarrow> string \<Rightarrow> Method option" where
  "GetMethod (Class nm ms par) n =
     (case find (\<lambda>m. name m = n) ms of
        Some m \<Rightarrow> Some m
      | None \<Rightarrow> (case par of Some p \<Rightarrow> GetMethod p n | None \<Rightarrow> None))"

text \<open>\<^verbatim>\<open>ClassInstance::HasMethod(method, argument_count)\<close>.\<close>

definition HasMethod :: "Instance \<Rightarrow> string \<Rightarrow> nat \<Rightarrow> bool" where
  "HasMethod inst method argument_count =
     (case GetMethod (cls inst) method of
        None \<Rightarrow> False
      | Some m \<Rightarrow> length (formal_params m) = argument_count)"

text \<open>The methods a lookup walks through, in child-then-parent order.\<close>

fun chain_methods :: "Class \<Rightarrow> Method list" where
  "chain_methods (Class nm ms par) =
     ms @ (case par of Some p \<Rightarrow> chain_methods p | None \<Rightarrow> [])"

section \<open>The runtime (runtime.cpp)\<close>

subsection \<open>Memory, output and results\<close>

text \<open>
  The objects that C++ keeps on the free store: class instances, by address.
  \<open>next_addr\<close> is the address the next allocation returns. Nothing is ever freed: the
  model describes the runs in which no holder outlives its object. \<open>out\<close> is what
  has been written to \<^verbatim>\<open>context.GetOutputStream()\<close>. \<open>class_holders\<close> are the
  members \<^verbatim>\<open>cls_\<close> of the \<^verbatim>\<open>ClassDefinition\<close> nodes of the tree.
\<close>

record world =
  heap :: "addr \<Rightarrow> Instance option"
  next_addr :: addr
  out :: string
  class_holders :: "addr \<Rightarrow> ObjectHolder"

text \<open>
  The two exception types of the interpreter: \<^verbatim>\<open>std::runtime_error\<close> with its message,
  and the \<^verbatim>\<open>RuntimeReturnExeption\<close> of \<^verbatim>\<open>statement.cpp\<close> with the holder it carries.
\<close>

datatype exn = runtime_error string | RuntimeReturnExeption ObjectHolder

text \<open>
  What a call does: return a value, throw, not finish within the fuel given, or reach
  behaviour that C++ leaves undefined (a holder that points at no object).
  \<open>'s\<close> is the mutable state the call leaves behind, also when it throws.
\<close>

datatype ('a, 's) outcome = Done 'a 's | Thrown exn 's | NoFuel | Undefined

fun bind :: "('a, 's) outcome \<Rightarrow> ('a \<Rightarrow> 's \<Rightarrow> ('b, 's) outcome) \<Rightarrow> ('b, 's) outcome" where
  "bind (Done a s) f = f a s"
| "bind (Thrown e s) f = Thrown e s"
| "bind NoFuel f = NoFuel"
| "bind Undefined f = Undefined"

fun map_outcome :: "('a \<Rightarrow> 'b) \<Rightarrow> ('a, 's) outcome \<Rightarrow> ('b, 's) outcome" where
  "map_outcome f (Done a s) = Done (f a) s"
| "map_outcome f (Thrown e s) = Thrown e s"
| "map_outcome f NoFuel = NoFuel"
| "map_outcome f Undefined = Undefined"

text \<open>
  A function that takes the context only leaves the caller's closure alone
  (\<open>with_closure\<close>); a method body runs on a closure that dies with the call
  (\<open>drop_closure\<close>).
\<close>

fun with_closure :: "Closure \<Rightarrow> ('a, world) outcome \<Rightarrow> ('a, Closure \<times> world) outcome" where
  "with_closure cl (Done a w) = Done a (cl, w)"
| "with_closure cl (Thrown e w) = Thrown e (cl, w)"
| "with_closure cl NoFuel = NoFuel"
| "with_closure cl Undefined = Undefined"

fun drop_closure :: "('a, Closure \<times> world) outcome \<Rightarrow> ('a, world) outcome" where
  "drop_closure (Done a (cl, w)) = Done a w"
| "drop_closure (Thrown e (cl, w)) = Thrown e w"
| "drop_closure NoFuel = NoFuel"
| "drop_closure Undefined = Undefined"

text \<open>\<^verbatim>\<open>Statement::Execute(closure, context)\<close>, as a value passed to the runtime.\<close>

type_synonym exec =
  "Statement \<Rightarrow> Closure \<Rightarrow> world \<Rightarrow> (ObjectHolder, Closure \<times> world) outcome"

definition put :: "world \<Rightarrow> string \<Rightarrow> world" where
  "put w s = w\<lparr>out := out w @ s\<rparr>"

text \<open>\<^verbatim>\<open>ObjectHolder::Own(ClassInstance)\<close>: a new object on the free store.\<close>

definition Own :: "world \<Rightarrow> Instance \<Rightarrow> ObjectHolder \<times> world" where
  "Own w inst =
     (ClassInstance (next_addr w),
      w\<lparr>heap := (heap w)(next_addr w \<mapsto> inst), next_addr := Suc (next_addr w)\<rparr>)"

subsection \<open>Truth, calls\<close>

fun IsTrue :: "ObjectHolder \<Rightarrow> bool" where
  "IsTrue (Bool b) = b"
| "IsTrue (Number n) = (n \<noteq> 0)"
| "IsTrue (String s) = (s \<noteq> [])"
| "IsTrue _ = False"

text \<open>\<^verbatim>\<open>std::unordered_map::emplace\<close> keeps an entry that is already there.\<close>

definition emplace :: "Closure \<Rightarrow> string \<Rightarrow> ObjectHolder \<Rightarrow> Closure" where
  "emplace c k v = (if c k = None then c(k \<mapsto> v) else c)"

fun emplace_params :: "Closure \<Rightarrow> string list \<Rightarrow> ObjectHolder list \<Rightarrow> Closure" where
  "emplace_params c (p # ps) (a # as) = emplace_params (emplace c p a) ps as"
| "emplace_params c ps as = c"

text \<open>
  \<^verbatim>\<open>ClassInstance::Call(method, actual_args, context)\<close> on the instance at address
  \<open>this\<close>. The body runs on a closure of its own: the formal parameters, then
  \<^verbatim>\<open>self\<close>.
\<close>

definition Call ::
  "exec \<Rightarrow> addr \<Rightarrow> string \<Rightarrow> ObjectHolder list \<Rightarrow> world \<Rightarrow> (ObjectHolder, world) outcome" where
  "Call exec this method actual_args w =
     (case heap w this of
        None \<Rightarrow> Undefined
      | Some inst \<Rightarrow>
          if HasMethod inst method (length actual_args) then
            (case GetMethod (cls inst) method of
               None \<Rightarrow> Undefined
             | Some m \<Rightarrow>
                 drop_closure
                   (exec (body m)
                      (emplace (emplace_params Map.empty (formal_params m) actual_args)
                         ''self'' (ClassInstance this))
                      w))
          else Thrown (runtime_error ''Nothing to call'') w)"

subsection \<open>Comparison helpers\<close>

fun Equal :: "exec \<Rightarrow> ObjectHolder \<Rightarrow> ObjectHolder \<Rightarrow> world \<Rightarrow> (bool, world) outcome" where
  "Equal exec NoneObj NoneObj w = Done True w"
| "Equal exec (Number a) (Number b) w = Done (a = b) w"
| "Equal exec (String a) (String b) w = Done (a = b) w"
| "Equal exec (Bool a) (Bool b) w = Done (a = b) w"
| "Equal exec (ClassInstance a) rhs w =
     (case heap w a of
        None \<Rightarrow> Undefined
      | Some inst \<Rightarrow>
          if HasMethod inst ''__eq__'' 1
          then map_outcome IsTrue (Call exec a ''__eq__'' [rhs] w)
          else Thrown (runtime_error ''Cannot compare objects'') w)"
| "Equal exec lhs rhs w = Thrown (runtime_error ''Cannot compare objects'') w"

fun Less :: "exec \<Rightarrow> ObjectHolder \<Rightarrow> ObjectHolder \<Rightarrow> world \<Rightarrow> (bool, world) outcome" where
  "Less exec NoneObj NoneObj w = Thrown (runtime_error ''Cannot compare objects for less'') w"
| "Less exec (Number a) (Number b) w = Done (a < b) w"
| "Less exec (String a) (String b) w = Done (a < b) w"
| "Less exec (Bool a) (Bool b) w = Done (a < b) w"
| "Less exec (ClassInstance a) rhs w =
     (case heap w a of
        None \<Rightarrow> Undefined
      | Some inst \<Rightarrow>
          if HasMethod inst ''__lt__'' 1
          then map_outcome IsTrue (Call exec a ''__lt__'' [rhs] w)
          else Thrown (runtime_error ''Cannot compare objects for less'') w)"
| "Less exec lhs rhs w = Thrown (runtime_error ''Cannot compare objects for less'') w"

definition NotEqual :: "exec \<Rightarrow> ObjectHolder \<Rightarrow> ObjectHolder \<Rightarrow> world \<Rightarrow> (bool, world) outcome" where
  "NotEqual exec lhs rhs w = map_outcome Not (Equal exec lhs rhs w)"

text \<open>\<^verbatim>\<open>Less(...) || Equal(...)\<close>: the right operand runs only when the left is false.\<close>

definition LessOrEqual :: "exec \<Rightarrow> ObjectHolder \<Rightarrow> ObjectHolder \<Rightarrow> world \<Rightarrow> (bool, world) outcome" where
  "LessOrEqual exec lhs rhs w =
     bind (Less exec lhs rhs w) (\<lambda>lt w'. if lt then Done True w' else Equal exec lhs rhs w')"

definition Greater :: "exec \<Rightarrow> ObjectHolder \<Rightarrow> ObjectHolder \<Rightarrow> world \<Rightarrow> (bool, world) outcome" where
  "Greater exec lhs rhs w = map_outcome Not (LessOrEqual exec lhs rhs w)"

definition GreaterOrEqual :: "exec \<Rightarrow> ObjectHolder \<Rightarrow> ObjectHolder \<Rightarrow> world \<Rightarrow> (bool, world) outcome" where
  "GreaterOrEqual exec lhs rhs w = map_outcome Not (Less exec lhs rhs w)"

fun apply_cmp ::
  "Comparator \<Rightarrow> exec \<Rightarrow> ObjectHolder \<Rightarrow> ObjectHolder \<Rightarrow> world \<Rightarrow> (bool, world) outcome" where
  "apply_cmp Cmp_Equal = Equal"
| "apply_cmp Cmp_NotEqual = NotEqual"
| "apply_cmp Cmp_Less = Less"
| "apply_cmp Cmp_Greater = Greater"
| "apply_cmp Cmp_LessOrEqual = LessOrEqual"
| "apply_cmp Cmp_GreaterOrEqual = GreaterOrEqual"

subsection \<open>Printing\<close>

fun show_nat :: "nat \<Rightarrow> string" where
  "show_nat n = (if n < 10 then [''0123456789'' ! n] else show_nat (n div 10) @ [''0123456789'' ! (n mod 10)])"

definition show_int :: "int \<Rightarrow> string" where
  "show_int i = (if i < 0 then CHR ''-'' # show_nat (nat (- i)) else show_nat (nat i))"

text \<open>
  \<^verbatim>\<open>os << this\<close> writes the address of the instance in a form the implementation
  chooses; the model writes it in decimal behind \<^verbatim>\<open>0x\<close>. Nothing below depends on it.
\<close>

definition pointer_text :: "addr \<Rightarrow> string" where
  "pointer_text a = ''0x'' @ show_nat a"

text \<open>
  The virtual \<^verbatim>\<open>Object::Print(os, context)\<close>; every caller passes the output stream of
  \<^verbatim>\<open>context\<close> as \<^verbatim>\<open>os\<close>. An instance with \<^verbatim>\<open>__str__\<close> prints what the method
  returns, which may again be an instance: the fuel bounds that recursion.
\<close>

text \<open>
  Modelled from the spec: \<^verbatim>\<open>Print\<close> of a \<^verbatim>\<open>Number\<close> (base-10 digits) and of a
  \<^verbatim>\<open>String\<close> (the raw characters), which \<^verbatim>\<open>runtime.cpp\<close> does not define. The
  other cases are \<^verbatim>\<open>Bool::Print\<close>, \<^verbatim>\<open>Class::Print\<close> and \<^verbatim>\<open>ClassInstance::Print\<close>.
\<close>

fun Object_Print :: "exec \<Rightarrow> nat \<Rightarrow> ObjectHolder \<Rightarrow> world \<Rightarrow> (unit, world) outcome" where
  "Object_Print exec 0 obj w = NoFuel"
| "Object_Print exec (Suc k) obj w =
     (case obj of
        NoneObj \<Rightarrow> Undefined
      | Number n \<Rightarrow> Done () (put w (show_int n))
      | String s \<Rightarrow> Done () (put w s)
      | Bool b \<Rightarrow> Done () (put w (if b then ''True'' else ''False''))
      | ClassObj c \<Rightarrow> Done () (put w (''Class '' @ GetName c))
      | ClassInstance a \<Rightarrow>
          (case heap w a of
             None \<Rightarrow> Undefined
           | Some inst \<Rightarrow>
               if HasMethod inst ''__str__'' 0 then
                 bind (Call exec a ''__str__'' [] w)
                   (\<lambda>r w'. if r = NoneObj then Done () w' else Object_Print exec k r w')
               else Done () (put w (pointer_text a))))"

section \<open>Executing the tree (statement.cpp)\<close>

text \<open>
  \<^verbatim>\<open>VariableValue::Execute\<close>: the loop over \<^verbatim>\<open>dotted_ids_\<close>, descending into the fields
  of an instance at every name but the last. It changes nothing.
\<close>

fun VariableValue_Execute :: "string list \<Rightarrow> Closure \<Rightarrow> world \<Rightarrow> (ObjectHolder, unit) outcome" where
  "VariableValue_Execute [] closure w = Done NoneObj ()"
| "VariableValue_Execute [field_name] closure w =
     (case closure field_name of
        None \<Rightarrow> Thrown (runtime_error ''Cant find var'') ()
      | Some v \<Rightarrow> Done v ())"
| "VariableValue_Execute (field_name # rest) closure w =
     (case closure field_name of
        None \<Rightarrow> Thrown (runtime_error ''Cant find var'') ()
      | Some v \<Rightarrow>
          (case v of
             ClassInstance a \<Rightarrow>
               (case heap w a of
                  None \<Rightarrow> Undefined
                | Some inst \<Rightarrow> VariableValue_Execute rest (Fields inst) w)
           | _ \<Rightarrow> Thrown (runtime_error ''This isn't object'') ()))"

fun in_state :: "'s \<Rightarrow> ('a, unit) outcome \<Rightarrow> ('a, 's) outcome" where
  "in_state s (Done a u) = Done a s"
| "in_state s (Thrown e u) = Thrown e s"
| "in_state s NoFuel = NoFuel"
| "in_state s Undefined = Undefined"

text \<open>The loop that fills \<^verbatim>\<open>actual_args\<close>, left to right.\<close>

fun ExecuteArgs ::
  "exec \<Rightarrow> Statement list \<Rightarrow> Closure \<Rightarrow> world \<Rightarrow> (ObjectHolder list, Closure \<times> world) outcome" where
  "ExecuteArgs exec [] cl w = Done [] (cl, w)"
| "ExecuteArgs exec (arg # args) cl w =
     bind (exec arg cl w) (\<lambda>v (cl', w').
       map_outcome (\<lambda>vs. v # vs) (ExecuteArgs exec args cl' w'))"

text \<open>The loop of \<^verbatim>\<open>Compound::Execute\<close>: the values of the statements are dropped.\<close>

fun Compound_loop ::
  "exec \<Rightarrow> Statement list \<Rightarrow> Closure \<Rightarrow> world \<Rightarrow> (unit, Closure \<times> world) outcome" where
  "Compound_loop exec [] cl w = Done () (cl, w)"
| "Compound_loop exec (statement # statements) cl w =
     bind (exec statement cl w) (\<lambda>v (cl', w'). Compound_loop exec statements cl' w')"

text \<open>The loop of \<^verbatim>\<open>Print::Execute\<close>; \<open>k\<close> is the fuel of \<open>Object_Print\<close>.\<close>

fun Print_loop ::
  "exec \<Rightarrow> nat \<Rightarrow> bool \<Rightarrow> Statement list \<Rightarrow> Closure \<Rightarrow> world \<Rightarrow> (unit, Closure \<times> world) outcome" where
  "Print_loop exec k first_arg [] cl w = Done () (cl, w)"
| "Print_loop exec k first_arg (arg # args) cl w =
     bind (exec arg cl (if \<not> first_arg then put w '' '' else w)) (\<lambda>obj (cl', w').
       bind (with_closure cl'
               (if obj \<noteq> NoneObj then Object_Print exec k obj w'
                else Done () (put w' ''None'')))
         (\<lambda>u (cl'', w''). Print_loop exec k False args cl'' w''))"

text \<open>
  The arithmetic of two \<^verbatim>\<open>Number\<close>s is that of \<^verbatim>\<open>int\<close>; the model computes in the
  integers and so describes the runs without signed overflow (which C++ leaves
  undefined). \<open>sdiv\<close> truncates towards zero, as \<^verbatim>\<open>/\<close> does.
\<close>

definition null_operands :: "Closure \<Rightarrow> world \<Rightarrow> ('a, Closure \<times> world) outcome" where
  "null_operands cl w = Thrown (runtime_error ''null operands are not supported'') (cl, w)"

text \<open>
  \<^verbatim>\<open>Execute(closure, context)\<close> of every node. The fuel bounds the depth of nested
  \<^verbatim>\<open>Execute\<close> calls; a run that needs more ends in \<open>NoFuel\<close>. An exception of a
  child passes through \<open>bind\<close> unchanged: \<^verbatim>\<open>MethodBody\<close> has the only handler.
\<close>

text \<open>
  Modelled from the spec: the first four equations, the literal nodes, which evaluate to
  the value they hold and \<^verbatim>\<open>NoneLit\<close> to the empty holder. All other equations are
  the bodies of \<^verbatim>\<open>statement.cpp\<close>.
\<close>

fun Execute :: "nat \<Rightarrow> Statement \<Rightarrow> Closure \<Rightarrow> world \<Rightarrow> (ObjectHolder, Closure \<times> world) outcome" where
  "Execute 0 s cl w = NoFuel"
| "Execute (Suc n) (NumberLit v) cl w = Done (Number v) (cl, w)"
| "Execute (Suc n) (StringLit v) cl w = Done (String v) (cl, w)"
| "Execute (Suc n) (BoolLit v) cl w = Done (Bool v) (cl, w)"
| "Execute (Suc n) NoneLit cl w = Done NoneObj (cl, w)"
| "Execute (Suc n) (VariableValue dotted_ids) cl w =
     in_state (cl, w) (VariableValue_Execute dotted_ids cl w)"
| "Execute (Suc n) (Assignment var rv) cl w =
     bind (Execute n rv cl w) (\<lambda>v (cl', w'). Done v (cl'(var \<mapsto> v), w'))"
| "Execute (Suc n) (FieldAssignment object field_name rv) cl w =
     bind (in_state (cl, w) (VariableValue_Execute object cl w)) (\<lambda>obj (cl0, w0).
       case obj of
         ClassInstance a \<Rightarrow>
           bind (Execute n rv cl w) (\<lambda>v (cl', w').
             case heap w' a of
               None \<Rightarrow> Undefined
             | Some inst \<Rightarrow>
                 Done v (cl', w'\<lparr>heap := (heap w')(a \<mapsto> inst\<lparr>Fields := (Fields inst)(field_name \<mapsto> v)\<rparr>)\<rparr>))
       | _ \<Rightarrow> Thrown (runtime_error ''Cant find field'') (cl, w))"
| "Execute (Suc n) (NewInstance node_inst args) cl w =
     bind (ExecuteArgs (Execute n) args cl w) (\<lambda>actual_args (cl', w').
       case heap w' node_inst of
         None \<Rightarrow> Undefined
       | Some inst \<Rightarrow>
           bind (if HasMethod inst ''__init__'' (length args)
                 then with_closure cl' (Call (Execute n) node_inst ''__init__'' actual_args w')
                 else Done NoneObj (cl', w'))
             (\<lambda>r (cl'', w'').
                case heap w'' node_inst of
                  None \<Rightarrow> Undefined
                | Some inst' \<Rightarrow> Done (fst (Own w'' inst')) (cl'', snd (Own w'' inst'))))"
| "Execute (Suc n) (MethodCall object method_name args) cl w =
     bind (Execute n object cl w) (\<lambda>obj (cl', w').
       case obj of
         ClassInstance a \<Rightarrow>
           (case heap w' a of
              None \<Rightarrow> Undefined
            | Some inst \<Rightarrow>
                if HasMethod inst method_name (length args) then
                  bind (ExecuteArgs (Execute n) args cl' w') (\<lambda>actual_args (cl'', w'').
                    with_closure cl'' (Call (Execute n) a method_name actual_args w''))
                else Done NoneObj (cl', w'))
       | _ \<Rightarrow> Done NoneObj (cl', w'))"
| "Execute (Suc n) (Compound statements) cl w =
     map_outcome (\<lambda>u. NoneObj) (Compound_loop (Execute n) statements cl w)"
| "Execute (Suc n) (Return statement) cl w =
     bind (Execute n statement cl w) (\<lambda>v s. Thrown (RuntimeReturnExeption v) s)"
| "Execute (Suc n) (MethodBody body_stmt) cl w =
     (case Execute n body_stmt cl w of
        Done v s \<Rightarrow> Done NoneObj s
      | Thrown (RuntimeReturnExeption v) s \<Rightarrow> Done v s
      | Thrown (runtime_error msg) s \<Rightarrow> Thrown (runtime_error msg) s
      | NoFuel \<Rightarrow> NoFuel
      | Undefined \<Rightarrow> Undefined)"
| "Execute (Suc n) (ClassDefinition node_cls) cl w =
     (case class_holders w node_cls of
        ClassObj c \<Rightarrow>
          Done NoneObj
            (cl(GetName c \<mapsto> ClassObj c),
             w\<lparr>class_holders := (class_holders w)(node_cls := NoneObj)\<rparr>)
      | _ \<Rightarrow> Undefined)"
| "Execute (Suc n) (Print args) cl w =
     bind (Print_loop (Execute n) n True args cl w) (\<lambda>u (cl', w').
       Done NoneObj (cl', put w' [CHR 0x0A]))"
| "Execute (Suc n) (Stringify argument) cl w =
     bind (Execute n argument cl w) (\<lambda>obj (cl', w').
       if obj = NoneObj then Done (String ''None'') (cl', w')
       else
         (case Object_Print (Execute n) n obj (w'\<lparr>out := []\<rparr>) of
            Done u dummy \<Rightarrow> Done (String (out dummy)) (cl', dummy\<lparr>out := out w'\<rparr>)
          | Thrown e dummy \<Rightarrow> Thrown e (cl', dummy\<lparr>out := out w'\<rparr>)
          | NoFuel \<Rightarrow> NoFuel
          | Undefined \<Rightarrow> Undefined))"
| "Execute (Suc n) (Add lhs rhs) cl w =
     (case (lhs, rhs) of
        (Some l, Some r) \<Rightarrow>
          bind (Execute n l cl w) (\<lambda>obj_lhs (cl1, w1).
            bind (Execute n r cl1 w1) (\<lambda>obj_rhs (cl2, w2).
              case (obj_lhs, obj_rhs) of
                (Number l_num, Number r_num) \<Rightarrow> Done (Number (l_num + r_num)) (cl2, w2)
              | (String l_str, String r_str) \<Rightarrow> Done (String (l_str @ r_str)) (cl2, w2)
              | (ClassInstance a, _) \<Rightarrow>
                  (case heap w2 a of
                     None \<Rightarrow> Undefined
                   | Some inst \<Rightarrow>
                       if HasMethod inst ''__add__'' 1
                       then with_closure cl2 (Call (Execute n) a ''__add__'' [obj_rhs] w2)
                       else Thrown (runtime_error ''incorrect add operands'') (cl2, w2))
              | _ \<Rightarrow> Thrown (runtime_error ''incorrect add operands'') (cl2, w2)))
      | _ \<Rightarrow> null_operands cl w)"
| "Execute (Suc n) (Sub lhs rhs) cl w =
     (case (lhs, rhs) of
        (Some l, Some r) \<Rightarrow>
          bind (Execute n l cl w) (\<lambda>obj_lhs (cl1, w1).
            bind (Execute n r cl1 w1) (\<lambda>obj_rhs (cl2, w2).
              case (obj_lhs, obj_rhs) of
                (Number l_num, Number r_num) \<Rightarrow> Done (Number (l_num - r_num)) (cl2, w2)
              | _ \<Rightarrow> Thrown (runtime_error ''incorrect sub operands'') (cl2, w2)))
      | _ \<Rightarrow> null_operands cl w)"
| "Execute (Suc n) (Mult lhs rhs) cl w =
     (case (lhs, rhs) of
        (Some l, Some r) \<Rightarrow>
          bind (Execute n l cl w) (\<lambda>obj_lhs (cl1, w1).
            bind (Execute n r cl1 w1) (\<lambda>obj_rhs (cl2, w2).
              case (obj_lhs, obj_rhs) of
                (Number l_num, Number r_num) \<Rightarrow> Done (Number (l_num * r_num)) (cl2, w2)
              | _ \<Rightarrow> Thrown (runtime_error ''incorrect mult operands'') (cl2, w2)))
      | _ \<Rightarrow> null_operands cl w)"
| "Execute (Suc n) (Div lhs rhs) cl w =
     (case (lhs, rhs) of
        (Some l, Some r) \<Rightarrow>
          bind (Execute n l cl w) (\<lambda>obj_lhs (cl1, w1).
            bind (Execute n r cl1 w1) (\<lambda>obj_rhs (cl2, w2).
              case (obj_lhs, obj_rhs) of
                (Number l_num, Number r_num) \<Rightarrow>
                  if r_num = 0 then Thrown (runtime_error ''division by zero'') (cl2, w2)
                  else Done (Number (l_num sdiv r_num)) (cl2, w2)
              | _ \<Rightarrow> Thrown (runtime_error ''incorrect div operands'') (cl2, w2)))
      | _ \<Rightarrow> null_operands cl w)"
| "Execute (Suc n) (Or lhs rhs) cl w =
     (case (lhs, rhs) of
        (Some l, Some r) \<Rightarrow>
          bind (Execute n l cl w) (\<lambda>l_obj (cl1, w1).
            if IsTrue l_obj then Done (Bool True) (cl1, w1)
            else
              bind (Execute n r cl1 w1) (\<lambda>r_obj (cl2, w2).
                if IsTrue r_obj then Done (Bool True) (cl2, w2)
                else Done (Bool False) (cl2, w2)))
      | _ \<Rightarrow> null_operands cl w)"
| "Execute (Suc n) (And lhs rhs) cl w =
     (case (lhs, rhs) of
        (Some l, Some r) \<Rightarrow>
          bind (Execute n l cl w) (\<lambda>l_obj (cl1, w1).
            if \<not> IsTrue l_obj then Done (Bool False) (cl1, w1)
            else
              bind (Execute n r cl1 w1) (\<lambda>r_obj (cl2, w2).
                if IsTrue l_obj \<and> IsTrue r_obj then Done (Bool True) (cl2, w2)
                else Done (Bool False) (cl2, w2)))
      | _ \<Rightarrow> null_operands cl w)"
| "Execute (Suc n) (Not_op argument) cl w =
     (case argument of
        Some arg \<Rightarrow>
          bind (Execute n arg cl w) (\<lambda>obj s. Done (Bool (\<not> IsTrue obj)) s)
      | None \<Rightarrow> null_operands cl w)"
| "Execute (Suc n) (Comparison cmp lhs rhs) cl w =
     (case (lhs, rhs) of
        (Some l, Some r) \<Rightarrow>
          bind (Execute n l cl w) (\<lambda>l_obj (cl1, w1).
            bind (Execute n r cl1 w1) (\<lambda>r_obj (cl2, w2).
              map_outcome Bool (with_closure cl2 (apply_cmp cmp (Execute n) l_obj r_obj w2))))
      | _ \<Rightarrow> null_operands cl w)"
| "Execute (Suc n) (IfElse condition if_body else_body) cl w =
     bind (Execute n condition cl w) (\<lambda>bool_condition (cl', w').
       if IsTrue bool_condition then Execute n if_body cl' w'
       else (case else_body of
               Some e \<Rightarrow> Execute n e cl' w'
             | None \<Rightarrow> Done NoneObj (cl', w')))"

section \<open>The lexer (lexer.h, lexer.cpp)\<close>

subsection \<open>Tokens\<close>

text \<open>The alternatives of \<^verbatim>\<open>parse::Token\<close>, namespace \<^verbatim>\<open>token_type\<close>, in their order.\<close>

datatype Token =
    Number_t int
  | Id_t string
  | Char_t char
  | String_t string
  | Class_t
  | Return_t
  | If_t
  | Else_t
  | Def_t
  | Newline_t
  | Print_t
  | Indent_t
  | Dedent_t
  | And_t
  | Or_t
  | Not_t
  | Eq_t
  | NotEq_t
  | LessOrEq_t
  | GreaterOrEq_t
  | None_t
  | True_t
  | False_t
  | Eof_t

subsection \<open>The input stream\<close>

text \<open>
  A \<^verbatim>\<open>std::istream\<close> over a string: the characters not yet read and the \<^verbatim>\<open>eofbit\<close>.
  A read at the end sets \<^verbatim>\<open>eofbit\<close> and returns \<^verbatim>\<open>EOF\<close> (\<open>None\<close>); a stream whose
  \<^verbatim>\<open>eofbit\<close> is set is not \<^verbatim>\<open>good()\<close> and every further read returns \<^verbatim>\<open>EOF\<close>.
  \<^verbatim>\<open>putback\<close> clears \<^verbatim>\<open>eofbit\<close> and gives the character back; the lexer calls it only
  right after a \<^verbatim>\<open>get()\<close> that returned a character.
\<close>

record istream =
  chars :: string
  eofbit :: bool

definition peek :: "istream \<Rightarrow> char option \<times> istream" where
  "peek input =
     (if eofbit input then (None, input)
      else (case chars input of
              [] \<Rightarrow> (None, input\<lparr>eofbit := True\<rparr>)
            | c # cs \<Rightarrow> (Some c, input)))"

definition get :: "istream \<Rightarrow> char option \<times> istream" where
  "get input =
     (if eofbit input then (None, input)
      else (case chars input of
              [] \<Rightarrow> (None, input\<lparr>eofbit := True\<rparr>)
            | c # cs \<Rightarrow> (Some c, input\<lparr>chars := cs\<rparr>)))"

definition ignore :: "istream \<Rightarrow> istream" where
  "ignore input = snd (get input)"

definition putback :: "char \<Rightarrow> istream \<Rightarrow> istream" where
  "putback c input = input\<lparr>chars := c # chars input, eofbit := False\<rparr>"

definition stringstream :: "string \<Rightarrow> istream" where
  "stringstream line = \<lparr>chars = line, eofbit = False\<rparr>"

text \<open>
  \<^verbatim>\<open>char c = input.get()\<close>: \<^verbatim>\<open>EOF\<close> is \<open>-1\<close> and becomes the byte \<open>0xFF\<close>; with the
  signed \<^verbatim>\<open>char\<close> of the x86 targets that byte is the only one equal to \<open>-1\<close>.
\<close>

definition to_char :: "char option \<Rightarrow> char" where
  "to_char g = (case g of None \<Rightarrow> CHR 0xFF | Some c \<Rightarrow> c)"

text \<open>The test \<^verbatim>\<open>input.peek() == ...\<close>, and the stream a \<^verbatim>\<open>peek()\<close> leaves.\<close>

definition next_is :: "(char \<Rightarrow> bool) \<Rightarrow> istream \<Rightarrow> bool" where
  "next_is P input = (case fst (peek input) of None \<Rightarrow> False | Some c \<Rightarrow> P c)"

definition peeked :: "istream \<Rightarrow> istream" where
  "peeked input = snd (peek input)"

text \<open>\<^verbatim>\<open><cctype>\<close> in the C locale.\<close>

definition isdigit :: "char \<Rightarrow> bool" where
  "isdigit c = (c \<in> set ''0123456789'')"

definition isalpha :: "char \<Rightarrow> bool" where
  "isalpha c = (c \<in> set ''abcdefghijklmnopqrstuvwxyzABCDEFGHIJKLMNOPQRSTUVWXYZ'')"

definition isalnum :: "char \<Rightarrow> bool" where
  "isalnum c = (isalpha c \<or> isdigit c)"

subsection \<open>Tables\<close>

definition KEY_WORDS_TOKEN :: "string \<Rightarrow> Token option" where
  "KEY_WORDS_TOKEN =
     [''class'' \<mapsto> Class_t, ''return'' \<mapsto> Return_t, ''if'' \<mapsto> If_t, ''else'' \<mapsto> Else_t,
      ''def'' \<mapsto> Def_t, ''print'' \<mapsto> Print_t, ''and'' \<mapsto> And_t, ''or'' \<mapsto> Or_t,
      ''not'' \<mapsto> Not_t, ''None'' \<mapsto> None_t, ''True'' \<mapsto> True_t, ''False'' \<mapsto> False_t]"

definition SPECIAL_OPERATORS_TOKEN :: "string \<Rightarrow> Token option" where
  "SPECIAL_OPERATORS_TOKEN =
     [''=='' \<mapsto> Eq_t, ''!='' \<mapsto> NotEq_t, ''<='' \<mapsto> LessOrEq_t, ''>='' \<mapsto> GreaterOrEq_t]"

definition SPECIAL_OPERATORS :: "char set" where
  "SPECIAL_OPERATORS = set ''=!<>''"

definition SPECIAL_SYMBOLS :: "char set" where
  "SPECIAL_SYMBOLS = {CHR 0x27, CHR 0x22, CHR ''n'', CHR ''t''}"

definition IsSpecialChar :: "char \<Rightarrow> bool" where
  "IsSpecialChar c = (c \<in> set ''.,(+)-*/:@%$^&;?=<>!{}[]'')"

fun StringIsComment :: "string \<Rightarrow> bool" where
  "StringIsComment [] = True"
| "StringIsComment (c # str) = (if c \<noteq> CHR '' '' then c = CHR ''#'' else StringIsComment str)"

subsection \<open>Reading a run of characters\<close>

text \<open>
  The loop of \<^verbatim>\<open>ReadString\<close>; \<open>c\<close> is the last character read. At the end of the
  stream \<^verbatim>\<open>get()\<close> sets \<^verbatim>\<open>eofbit\<close> and \<open>c\<close> is the byte \<open>0xFF\<close>, which goes through
  \<^verbatim>\<open>pred\<close> like any character.
\<close>

function ReadString_loop ::
  "(char \<Rightarrow> bool) \<Rightarrow> istream \<Rightarrow> string \<Rightarrow> char \<Rightarrow> istream \<times> string \<times> char" where
  "ReadString_loop pred input result c =
     (if eofbit input then (input, result, c)
      else
        (let c1 = to_char (fst (get input)); input1 = snd (get input) in
         if \<not> pred c1 then (input1, result, c1)
         else if c1 = CHR 0x5C then
           (let ch = to_char (fst (get input1)); input2 = snd (get input1) in
            if ch \<in> SPECIAL_SYMBOLS
            then ReadString_loop pred input2
                   (result @ [if ch = CHR ''n'' then CHR 0x0A
                              else if ch = CHR ''t'' then CHR 0x09 else ch]) c1
            else ReadString_loop pred input2 result c1)
         else ReadString_loop pred input1 (result @ [c1]) c1))"
  by pat_completeness auto
termination
  by (relation "measure (\<lambda>(pred, input, result, c).
                  length (chars input) + (if eofbit input then 0 else 1))")
     (auto simp: get_def split: list.splits)

definition ReadString :: "(char \<Rightarrow> bool) \<Rightarrow> istream \<Rightarrow> istream \<times> string" where
  "ReadString pred input =
     (case ReadString_loop pred input [] (CHR 0xFF) of
        (input', result, c) \<Rightarrow>
          (if c \<noteq> CHR 0xFF \<and> \<not> pred c \<and> c \<noteq> CHR 0x27 \<and> c \<noteq> CHR 0x22
           then putback c input' else input',
           result))"

subsection \<open>The lexer object\<close>

text \<open>
  \<^verbatim>\<open>indent_size_\<close> is a \<^verbatim>\<open>size_t\<close> that starts at 0 and changes in steps of 2; it is
  decremented only while it is greater than a \<^verbatim>\<open>size_t\<close>, so it stays even and never
  wraps (the invariant \<open>lexer_inv\<close> below), and a natural number models it.
\<close>

record Lexer =
  current_token :: Token
  current_token_index :: nat
  tokens :: "Token list"
  indent_size :: nat

definition new_Lexer :: Lexer where
  "new_Lexer = \<lparr>current_token = Number_t 0, current_token_index = 0, tokens = [], indent_size = 0\<rparr>"

definition push_back :: "Token \<Rightarrow> Lexer \<Rightarrow> Lexer" where
  "push_back t lx = lx\<lparr>tokens := tokens lx @ [t]\<rparr>"

definition NextToken :: "Lexer \<Rightarrow> Lexer" where
  "NextToken lx =
     (if current_token_index lx < length (tokens lx)
      then lx\<lparr>current_token := tokens lx ! current_token_index lx,
              current_token_index := Suc (current_token_index lx)\<rparr>
      else lx)"

text \<open>
  How lexing ends: with a result, with the \<^verbatim>\<open>std::out_of_range\<close> or
  \<^verbatim>\<open>std::invalid_argument\<close> of \<^verbatim>\<open>stoi\<close> and \<^verbatim>\<open>at\<close>, or not within the fuel
  (\<^verbatim>\<open>LoadTokens\<close> never ends on a character that no branch reads).
\<close>

datatype 'a lexing = Lexed 'a | out_of_range | invalid_argument | OutOfFuel

fun lex_bind :: "'a lexing \<Rightarrow> ('a \<Rightarrow> 'b lexing) \<Rightarrow> 'b lexing" where
  "lex_bind (Lexed a) f = f a"
| "lex_bind out_of_range f = out_of_range"
| "lex_bind invalid_argument f = invalid_argument"
| "lex_bind OutOfFuel f = OutOfFuel"

subsection \<open>Indentation\<close>

function LoadDedent :: "nat \<Rightarrow> Lexer \<Rightarrow> Lexer" where
  "LoadDedent current_indent lx =
     (if indent_size lx > current_indent
      then LoadDedent current_indent (push_back Dedent_t (lx\<lparr>indent_size := indent_size lx - 2\<rparr>))
      else lx)"
  by pat_completeness auto
termination
  by (relation "measure (\<lambda>(current_indent, lx). indent_size lx)") (auto simp: push_back_def)

function LoadIndent :: "nat \<Rightarrow> Lexer \<Rightarrow> Lexer" where
  "LoadIndent current_indent lx =
     (if indent_size lx < current_indent
      then LoadIndent current_indent (push_back Indent_t (lx\<lparr>indent_size := indent_size lx + 2\<rparr>))
      else lx)"
  by pat_completeness auto
termination
  by (relation "measure (\<lambda>(current_indent, lx). Suc current_indent - indent_size lx)")
     (auto simp: push_back_def)

text \<open>The \<^verbatim>\<open>do ... while\<close> of \<^verbatim>\<open>LoadTab\<close> that counts and drops the leading spaces.\<close>

function skip_spaces :: "nat \<Rightarrow> istream \<Rightarrow> nat \<times> istream" where
  "skip_spaces i input =
     (let input1 = ignore input in
      if next_is (\<lambda>c. c = CHR '' '') input1
      then skip_spaces (i + 1) (peeked input1)
      else (i + 1, peeked input1))"
  by pat_completeness auto
termination
  by (relation "measure (\<lambda>(i, input). length (chars input))")
     (auto simp: ignore_def get_def next_is_def peeked_def peek_def split: list.splits if_splits)

definition LoadTab :: "istream \<Rightarrow> Lexer \<Rightarrow> istream \<times> Lexer" where
  "LoadTab input lx =
     (if next_is (\<lambda>c. c = CHR '' '') input then
        (case skip_spaces 0 (peeked input) of
           (i, input') \<Rightarrow>
             (input', if i > indent_size lx then LoadIndent i lx else LoadDedent i lx))
      else (peeked input, LoadDedent 0 lx))"

subsection \<open>Tokens of a line\<close>

text \<open>
  \<^verbatim>\<open>std::stoi\<close> on a run of decimal digits: the value, \<^verbatim>\<open>std::out_of_range\<close> when
  it does not fit an \<^verbatim>\<open>int\<close>, \<^verbatim>\<open>std::invalid_argument\<close> when there is no digit.
\<close>

definition digit_value :: "char \<Rightarrow> int" where
  "digit_value c = int (of_char c) - 48"

definition stoi :: "string \<Rightarrow> int lexing" where
  "stoi number =
     (let v = foldl (\<lambda>a c. 10 * a + digit_value c) 0 number in
      if number = [] then invalid_argument
      else if v > 2147483647 then out_of_range else Lexed v)"

definition LoadNumber :: "istream \<Rightarrow> Lexer \<Rightarrow> (istream \<times> Lexer) lexing" where
  "LoadNumber input lx =
     (case ReadString isdigit input of
        (input', number) \<Rightarrow>
          lex_bind (stoi number) (\<lambda>v. Lexed (input', push_back (Number_t v) lx)))"

text \<open>\<^verbatim>\<open>end = input.get()\<close> takes the opening quote.\<close>

definition LoadString :: "istream \<Rightarrow> Lexer \<Rightarrow> istream \<times> Lexer" where
  "LoadString input lx =
     (let end_c = to_char (fst (get input)) in
      case ReadString (\<lambda>c. c \<noteq> end_c) (snd (get input)) of
        (input', dest) \<Rightarrow> (input', push_back (String_t dest) lx))"

definition LoadWord :: "istream \<Rightarrow> Lexer \<Rightarrow> istream \<times> Lexer" where
  "LoadWord input lx =
     (case ReadString (\<lambda>c. c = CHR ''_'' \<or> isalnum c) input of
        (input', word) \<Rightarrow>
          (input', case KEY_WORDS_TOKEN word of
                     Some t \<Rightarrow> push_back t lx
                   | None \<Rightarrow> push_back (Id_t word) lx))"

definition LoadChar :: "char \<Rightarrow> Lexer \<Rightarrow> Lexer" where
  "LoadChar c lx = push_back (Char_t c) lx"

text \<open>
  \<^verbatim>\<open>SPECIAL_OPERATORS_TOKEN.at(sign)\<close> finds every pair of one of \<^verbatim>\<open>= ! < >\<close> and
  \<^verbatim>\<open>=\<close>; \<^verbatim>\<open>LoadSign\<close> is called on these first characters only.
\<close>

definition LoadSign :: "istream \<Rightarrow> Lexer \<Rightarrow> (istream \<times> Lexer) lexing" where
  "LoadSign input lx =
     (let first = to_char (fst (get input)); input1 = snd (get input) in
      if next_is (\<lambda>c. c = CHR ''='') input1 then
        (let second = to_char (fst (get (peeked input1))); input2 = snd (get (peeked input1)) in
         case SPECIAL_OPERATORS_TOKEN [first, second] of
           Some t \<Rightarrow> Lexed (input2, push_back t lx)
         | None \<Rightarrow> out_of_range)
      else Lexed (peeked input1, LoadChar first lx))"

text \<open>
  One turn of the \<^verbatim>\<open>while\<close> of \<^verbatim>\<open>LoadTokens\<close>: the six \<^verbatim>\<open>if\<close>s in their order, each
  on the stream the one before left. The flag tells whether the turn ended in
  \<^verbatim>\<open>break\<close>.
\<close>

definition LoadTokens_turn :: "istream \<Rightarrow> Lexer \<Rightarrow> (bool \<times> istream \<times> Lexer) lexing" where
  "LoadTokens_turn input lx =
     (let in1 = (if next_is (\<lambda>c. c = CHR '' '') input then ignore (peeked input)
                 else peeked input) in
      if next_is (\<lambda>c. c = CHR ''#'') in1 then Lexed (True, peeked in1, lx)
      else
        lex_bind (if next_is isdigit (peeked in1) then LoadNumber (peeked in1) lx
                  else Lexed (peeked in1, lx)) (\<lambda>(in2, lx2).
        case (if next_is (\<lambda>c. c = CHR 0x22 \<or> c = CHR 0x27) in2 then LoadString (peeked in2) lx2
              else (peeked in2, lx2)) of (in3, lx3) \<Rightarrow>
        case (if next_is (\<lambda>c. c = CHR ''_'' \<or> isalpha c) in3 then LoadWord (peeked in3) lx3
              else (peeked in3, lx3)) of (in4, lx4) \<Rightarrow>
        lex_bind (if next_is IsSpecialChar in4 then
                    (if next_is (\<lambda>c. c \<in> SPECIAL_OPERATORS) (peeked in4)
                     then LoadSign (peeked in4) lx4
                     else Lexed (snd (get (peeked in4)),
                                 LoadChar (to_char (fst (get (peeked in4)))) lx4))
                  else Lexed (peeked in4, lx4)) (\<lambda>(in5, lx5).
        Lexed (False, in5, lx5))))"

fun LoadTokens :: "nat \<Rightarrow> istream \<Rightarrow> Lexer \<Rightarrow> (istream \<times> Lexer) lexing" where
  "LoadTokens fuel input lx =
     (if eofbit input then Lexed (input, lx)
      else (case fuel of
              0 \<Rightarrow> OutOfFuel
            | Suc k \<Rightarrow>
                lex_bind (LoadTokens_turn input lx) (\<lambda>(break, input', lx').
                  if break then Lexed (input', lx') else LoadTokens k input' lx')))"

definition ParseString :: "nat \<Rightarrow> istream \<Rightarrow> Lexer \<Rightarrow> (istream \<times> Lexer) lexing" where
  "ParseString fuel input lx =
     (case LoadTab input lx of (input', lx') \<Rightarrow> LoadTokens fuel input' lx')"

definition LoadEndl :: "Lexer \<Rightarrow> Lexer" where
  "LoadEndl lx =
     (if tokens lx \<noteq> [] \<and> last (tokens lx) \<noteq> Newline_t then push_back Newline_t lx else lx)"

definition LoadEof :: "Lexer \<Rightarrow> Lexer" where
  "LoadEof lx = push_back Eof_t lx"

subsection \<open>The whole input\<close>

text \<open>
  The lines that successive \<^verbatim>\<open>getline(input, line)\<close> calls return: split at the line
  feeds; a last line without line feed counts when it is not empty.
\<close>

fun getlines :: "string \<Rightarrow> string \<Rightarrow> string list" where
  "getlines line [] = (if line = [] then [] else [line])"
| "getlines line (c # input) =
     (if c = CHR 0x0A then line # getlines [] input else getlines (line @ [c]) input)"

text \<open>The \<^verbatim>\<open>while\<close> of \<^verbatim>\<open>ParseTextOnTokens\<close>; \<open>fuel\<close> bounds the turns of \<^verbatim>\<open>LoadTokens\<close> on a line.\<close>

fun ParseLines :: "nat \<Rightarrow> string list \<Rightarrow> Lexer \<Rightarrow> Lexer lexing" where
  "ParseLines fuel [] lx = Lexed lx"
| "ParseLines fuel (line # rest) lx =
     (if \<not> StringIsComment line then
        lex_bind (ParseString fuel (stringstream line) lx) (\<lambda>(input', lx').
          ParseLines fuel rest (LoadEndl lx'))
      else ParseLines fuel rest lx)"

definition ParseTextOnTokens :: "nat \<Rightarrow> string \<Rightarrow> Lexer \<Rightarrow> Lexer lexing" where
  "ParseTextOnTokens fuel input lx =
     lex_bind (ParseLines fuel (getlines [] input) lx) (\<lambda>lx'.
       Lexed (NextToken (LoadEof (LoadDedent 0 lx'))))"

text \<open>\<^verbatim>\<open>Lexer::Lexer(std::istream &input)\<close>.\<close>

definition Lexer_of :: "nat \<Rightarrow> string \<Rightarrow> Lexer lexing" where
  "Lexer_of fuel input = ParseTextOnTokens fuel input new_Lexer"

section \<open>Concrete programs\<close>

text \<open>\<^verbatim>\<open>Closure closure;\<close>, an empty context, and \<^verbatim>\<open>ClassInstance(const Class &cls)\<close>.\<close>

definition empty_closure :: Closure where
  "empty_closure = Map.empty"

definition empty_world :: world where
  "empty_world =
     \<lparr>heap = Map.empty, next_addr = 0, out = [], class_holders = (\<lambda>k. NoneObj)\<rparr>"

definition Instance_of :: "Class \<Rightarrow> Instance" where
  "Instance_of c = \<lparr>cls = c, Fields = Map.empty\<rparr>"

text \<open>What a run has written, and what it has bound to a name.\<close>

fun written :: "('a, Closure \<times> world) outcome \<Rightarrow> string option" where
  "written (Done v (cl, w)) = Some (out w)"
| "written (Thrown e (cl, w)) = Some (out w)"
| "written NoFuel = None"
| "written Undefined = None"

fun bound :: "('a, Closure \<times> world) outcome \<Rightarrow> string \<Rightarrow> ObjectHolder option" where
  "bound (Done v (cl, w)) x = cl x"
| "bound (Thrown e (cl, w)) x = cl x"
| "bound NoFuel x = None"
| "bound Undefined x = None"

fun written_w :: "('a, world) outcome \<Rightarrow> string option" where
  "written_w (Done v w) = Some (out w)"
| "written_w (Thrown e w) = Some (out w)"
| "written_w NoFuel = None"
| "written_w Undefined = None"

text \<open>\<^verbatim>\<open>TryAs<ClassInstance>()\<close>, and the primitive values.\<close>

fun TryAs_ClassInstance :: "ObjectHolder \<Rightarrow> addr option" where
  "TryAs_ClassInstance (ClassInstance a) = Some a"
| "TryAs_ClassInstance obj = None"

fun is_primitive :: "ObjectHolder \<Rightarrow> bool" where
  "is_primitive (Number n) = True"
| "is_primitive (String s) = True"
| "is_primitive (Bool b) = True"
| "is_primitive obj = False"

definition method_key :: "Method \<Rightarrow> string \<times> nat" where
  "method_key m = (name m, length (formal_params m))"

text \<open>The class of the overloading test of \<^verbatim>\<open>main.cpp\<close>: \<^verbatim>\<open>f(a)\<close> and \<^verbatim>\<open>f(a, b)\<close>.\<close>

definition overload_f1 :: Method where
  "overload_f1 = Method ''f'' [''a''] (MethodBody (Print [StringLit ''one parameter overload'']))"

definition overload_f2 :: Method where
  "overload_f2 =
     Method ''f'' [''a'', ''b''] (MethodBody (Print [StringLit ''two parameters overload'']))"

definition overload_X :: Class where
  "overload_X = Class ''X'' [overload_f1, overload_f2] None"

text \<open>A child class without methods of its own, and one that overrides \<^verbatim>\<open>f(a)\<close>.\<close>

definition plain_child :: Class where
  "plain_child = Class ''Y'' [] (Some overload_X)"

definition override_g :: Method where
  "override_g = Method ''f'' [''a''] (MethodBody (Print [StringLit ''child'']))"

definition overriding_child :: Class where
  "overriding_child = Class ''Z'' [override_g] (Some overload_X)"

text \<open>
  A program that runs one \<^verbatim>\<open>NewInstance\<close> node twice:
  \<^verbatim>\<open>
  class Box:
    def __init__(flag):
      if flag:
        self.v = 1

  class Factory:
    def make(flag):
      return Box(flag)

  f = Factory()
  a = f.make(True)
  b = f.make(False)
  print b.v
  \<close>
  The node of \<^verbatim>\<open>Box(flag)\<close> keeps its instance at address 0, the node of
  \<^verbatim>\<open>Factory()\<close> at address 1; the two class definitions are the nodes 0 and 1.
\<close>

definition Box :: Class where
  "Box = Class ''Box''
     [Method ''__init__'' [''flag'']
        (MethodBody (Compound
           [IfElse (VariableValue [''flag''])
              (Compound [FieldAssignment [''self''] ''v'' (NumberLit 1)]) None]))]
     None"

definition Factory :: Class where
  "Factory = Class ''Factory''
     [Method ''make'' [''flag'']
        (MethodBody (Compound [Return (NewInstance 0 [VariableValue [''flag'']])]))]
     None"

text \<open>
  \<^verbatim>\<open>NewInstance::NewInstance(class_, args)\<close>: the member \<^verbatim>\<open>cls_(class_)\<close> comes into
  being with the node.
\<close>

definition NewInstance_node :: "Class \<Rightarrow> Statement list \<Rightarrow> world \<Rightarrow> Statement \<times> world" where
  "NewInstance_node c args w = (NewInstance (next_addr w) args, snd (Own w (Instance_of c)))"

text \<open>\<^verbatim>\<open>ClassDefinition::ClassDefinition(ObjectHolder cls)\<close>, for the node number \<open>k\<close>.\<close>

definition ClassDefinition_node :: "addr \<Rightarrow> Class \<Rightarrow> world \<Rightarrow> Statement \<times> world" where
  "ClassDefinition_node k c w =
     (ClassDefinition k, w\<lparr>class_holders := (class_holders w)(k := ClassObj c)\<rparr>)"

definition factory_world :: world where
  "factory_world =
     \<lparr>heap = [0 \<mapsto> Instance_of Box, 1 \<mapsto> Instance_of Factory], next_addr = 2, out = [],
      class_holders = (\<lambda>k. NoneObj)(0 := ClassObj Box, 1 := ClassObj Factory)\<rparr>"

definition factory_program :: Statement where
  "factory_program = Compound
     [ClassDefinition 0,
      ClassDefinition 1,
      Assignment ''f'' (NewInstance 1 []),
      Assignment ''a'' (MethodCall (VariableValue [''f'']) ''make'' [BoolLit True]),
      Assignment ''b'' (MethodCall (VariableValue [''f'']) ''make'' [BoolLit False]),
      Print [VariableValue [''b'', ''v'']]]"

text \<open>
  An instance whose comparison methods write a line each:
  \<^verbatim>\<open>
  class Noisy:
    def __lt__(rhs):
      print "lt"
      return False
    def __eq__(rhs):
      print "eq"
      return True
  \<close>
\<close>

definition Noisy :: Class where
  "Noisy = Class ''Noisy''
     [Method ''__lt__'' [''rhs'']
        (MethodBody (Compound [Print [StringLit ''lt''], Return (BoolLit False)])),
      Method ''__eq__'' [''rhs'']
        (MethodBody (Compound [Print [StringLit ''eq''], Return (BoolLit True)]))]
     None"

definition noisy_world :: world where
  "noisy_world =
     \<lparr>heap = [0 \<mapsto> Instance_of Noisy], next_addr = 1, out = [],
      class_holders = (\<lambda>k. NoneObj)\<rparr>"

text \<open>The statements of the tests of \<^verbatim>\<open>main.cpp\<close> on a number: \<^verbatim>\<open>x = 123\<close>.\<close>

definition number_closure :: Closure where
  "number_closure = [''x'' \<mapsto> Number 123]"

definition loud :: Statement where
  "loud = Print [StringLit ''Should not be executed'']"

text \<open>
  The child that a node executes first, in the closure and context the node was entered
  with, when it has one.
\<close>

fun first_child :: "Statement \<Rightarrow> Statement option" where
  "first_child (Assignment var rv) = Some rv"
| "first_child (NewInstance a (arg # args)) = Some arg"
| "first_child (MethodCall object method_name args) = Some object"
| "first_child (Compound (statement # statements)) = Some statement"
| "first_child (Return statement) = Some statement"
| "first_child (MethodBody body_stmt) = Some body_stmt"
| "first_child (Print (arg # args)) = Some arg"
| "first_child (Stringify argument) = Some argument"
| "first_child (Add (Some l) (Some r)) = Some l"
| "first_child (Sub (Some l) (Some r)) = Some l"
| "first_child (Mult (Some l) (Some r)) = Some l"
| "first_child (Div (Some l) (Some r)) = Some l"
| "first_child (Or (Some l) (Some r)) = Some l"
| "first_child (And (Some l) (Some r)) = Some l"
| "first_child (Not_op (Some argument)) = Some argument"
| "first_child (Comparison cmp (Some l) (Some r)) = Some l"
| "first_child (IfElse condition if_body else_body) = Some condition"
| "first_child s = None"

text \<open>
  A method body that returns from inside an \<^verbatim>\<open>if\<close>:
  \<^verbatim>\<open>
    if True:
      return 57
    print "Should not be executed"
  \<close>
\<close>

definition early_return :: Statement where
  "early_return = MethodBody (Compound
     [IfElse (BoolLit True) (Compound [Return (NumberLit 57)]) None, loud])"

text \<open>
  The class \<^verbatim>\<open>Sink\<close> of the last test of \<^verbatim>\<open>main.cpp\<close>, whose \<^verbatim>\<open>apply()\<close> takes
  no argument, and an instance of it bound to \<^verbatim>\<open>sink\<close>.
\<close>

definition Sink :: Class where
  "Sink = Class ''Sink''
     [Method ''apply'' [] (MethodBody (Compound [Assignment ''pass'' (NumberLit 0)]))] None"

definition sink_world :: world where
  "sink_world =
     \<lparr>heap = [0 \<mapsto> Instance_of Sink], next_addr = 1, out = [],
      class_holders = (\<lambda>k. NoneObj)\<rparr>"

definition sink_closure :: Closure where
  "sink_closure = [''sink'' \<mapsto> ClassInstance 0]"

section \<open>Notions for the properties of the lexer\<close>

text \<open>The token vector of a lexer that was built.\<close>

fun toks :: "Lexer lexing \<Rightarrow> Token list option" where
  "toks (Lexed lx) = Some (tokens lx)"
| "toks out_of_range = None"
| "toks invalid_argument = None"
| "toks OutOfFuel = None"

text \<open>
  Whether a string literal whose opening quote \<open>q\<close> has been read ends within the rest of
  the line: at the first \<open>q\<close> that is not behind a backslash.
\<close>

fun terminated :: "char \<Rightarrow> string \<Rightarrow> bool" where
  "terminated q [] = False"
| "terminated q [c] = (c = q)"
| "terminated q (c # d # ds) =
     (if c = q then True else if c = CHR 0x5C then terminated q ds else terminated q (d # ds))"

definition at_end :: istream where
  "at_end = \<lparr>chars = [], eofbit = True\<rparr>"

definition unterminated_line :: string where
  "unterminated_line = ''x = '' @ [CHR 0x22] @ ''abc''"

text \<open>The numbers of \<^verbatim>\<open>Indent\<close> and \<^verbatim>\<open>Dedent\<close> tokens pushed so far.\<close>

definition indents :: "Lexer \<Rightarrow> nat" where
  "indents lx = count_list (tokens lx) Indent_t"

definition dedents :: "Lexer \<Rightarrow> nat" where
  "dedents lx = count_list (tokens lx) Dedent_t"

definition layout :: "Lexer \<Rightarrow> nat \<times> nat \<times> nat" where
  "layout lx = (indent_size lx, indents lx, dedents lx)"

definition lexer_inv :: "Lexer \<Rightarrow> bool" where
  "lexer_inv lx \<longleftrightarrow> even (indent_size lx) \<and> 2 * indents lx = 2 * dedents lx + indent_size lx"

definition small_program :: string where
  "small_program = ''if x:'' @ [CHR 0x0A] @ ''  print 1''"

definition small_lexer :: Lexer where
  "small_lexer = \<lparr>current_token = If_t, current_token_index = 1,
     tokens = [If_t, Id_t ''x'', Char_t CHR '':'', Newline_t,
           Indent_t, Print_t, Number_t 1, Newline_t, Dedent_t, Eof_t], indent_size = 0\<rparr>"

text \<open>The recursive equations are unfolded by hand, one turn at a time.\<close>

declare ReadString_loop.simps [simp del]
declare LoadDedent.simps [simp del]
declare LoadIndent.simps [simp del]
declare skip_spaces.simps [simp del]
declare LoadTokens.simps [simp del]

section \<open>Properties of method lookup\<close>

lemma find_append_split:
  "find P (xs @ ys) = (case find P xs of Some x \<Rightarrow> Some x | None \<Rightarrow> find P ys)"
  by (induction xs) simp_all

lemma GetMethod_chain: "GetMethod c n = find (\<lambda>m. name m = n) (chain_methods c)"
proof (induction c n rule: GetMethod.induct)
  case (1 nm ms par n)
  show ?case
  proof (cases "find (\<lambda>m. name m = n) ms")
    case None
    then show ?thesis using 1 by (cases par) (simp_all add: find_append_split)
  next
    case (Some m)
    then show ?thesis by (simp add: find_append_split)
  qed
qed

lemma find_first_split:
  "find P xs = Some x \<longleftrightarrow> (\<exists>pre post. xs = pre @ x # post \<and> (\<forall>y\<in>set pre. \<not> P y) \<and> P x)"
proof (induction xs)
  case Nil
  then show ?case by simp
next
  case (Cons a xs)
  show ?case
  proof (cases "P a")
    case True
    have "(\<exists>pre post. a # xs = pre @ x # post \<and> (\<forall>y\<in>set pre. \<not> P y) \<and> P x) \<longleftrightarrow> a = x"
    proof
      assume "\<exists>pre post. a # xs = pre @ x # post \<and> (\<forall>y\<in>set pre. \<not> P y) \<and> P x"
      then obtain pre post where h: "a # xs = pre @ x # post" "\<forall>y\<in>set pre. \<not> P y" by blast
      show "a = x"
      proof (cases pre)
        case Nil
        then show ?thesis using h by simp
      next
        case (Cons b bs)
        then show ?thesis using h True by auto
      qed
    next
      assume "a = x"
      then have "a # xs = [] @ x # xs \<and> (\<forall>y\<in>set []. \<not> P y) \<and> P x" using True by simp
      then show "\<exists>pre post. a # xs = pre @ x # post \<and> (\<forall>y\<in>set pre. \<not> P y) \<and> P x" by blast
    qed
    then show ?thesis using True by simp
  next
    case False
    have "(\<exists>pre post. a # xs = pre @ x # post \<and> (\<forall>y\<in>set pre. \<not> P y) \<and> P x)
          \<longleftrightarrow> (\<exists>pre post. xs = pre @ x # post \<and> (\<forall>y\<in>set pre. \<not> P y) \<and> P x)"
      (is "?L \<longleftrightarrow> ?R")
    proof
      assume ?L
      then obtain pre post where h: "a # xs = pre @ x # post" "\<forall>y\<in>set pre. \<not> P y" "P x" by blast
      show ?R
      proof (cases pre)
        case Nil
        then show ?thesis using h False by simp
      next
        case (Cons b bs)
        then have "xs = bs @ x # post" "\<forall>y\<in>set bs. \<not> P y" using h by simp_all
        then show ?thesis using h(3) by blast
      qed
    next
      assume ?R
      then obtain pre post where h: "xs = pre @ x # post" "\<forall>y\<in>set pre. \<not> P y" "P x" by blast
      then have "a # xs = (a # pre) @ x # post" "\<forall>y\<in>set (a # pre). \<not> P y" using False by simp_all
      then show ?L using h(3) by blast
    qed
    then show ?thesis using False Cons.IH by simp
  qed
qed

text \<open>
  Claim C1, as the code has it. The lookup goes by name alone, child first: it returns
  the parent's answer when the child has no method of that name, and a method of the
  child when the child has one. \<^verbatim>\<open>HasMethod(name, n)\<close> holds exactly when the first
  method of that name in child-then-parent order has \<open>n\<close> formal parameters; so it
  holds whenever the chain has a method of that name and every method of that name in
  the chain has \<open>n\<close> formal parameters.
\<close>

theorem method_lookup_by_name_child_first:
  "((\<forall>m\<in>set ms. name m \<noteq> n) \<longrightarrow> GetMethod (Class c ms (Some p)) n = GetMethod p n)
   \<and> ((\<exists>m\<in>set ms. name m = n) \<longrightarrow>
        (\<exists>m'\<in>set ms. name m' = n \<and> GetMethod (Class c ms par) n = Some m'))
   \<and> (HasMethod inst n k \<longleftrightarrow>
        (\<exists>pre m post. chain_methods (cls inst) = pre @ m # post
            \<and> (\<forall>x\<in>set pre. name x \<noteq> n) \<and> name m = n \<and> length (formal_params m) = k))
   \<and> ((\<exists>m\<in>set (chain_methods (cls inst)). name m = n)
        \<and> (\<forall>m\<in>set (chain_methods (cls inst)). name m = n \<longrightarrow> length (formal_params m) = k)
        \<longrightarrow> HasMethod inst n k)"
proof (intro conjI impI)
  assume "\<forall>m\<in>set ms. name m \<noteq> n"
  then have "find (\<lambda>m. name m = n) ms = None" by (simp add: find_None_iff)
  then show "GetMethod (Class c ms (Some p)) n = GetMethod p n" by simp
next
  assume "\<exists>m\<in>set ms. name m = n"
  then obtain m' where m': "find (\<lambda>m. name m = n) ms = Some m'"
    by (cases "find (\<lambda>m. name m = n) ms") (auto simp: find_None_iff)
  then have "m' \<in> set ms" "name m' = n"
    by (auto simp: find_Some_iff)
  then show "\<exists>m'\<in>set ms. name m' = n \<and> GetMethod (Class c ms par) n = Some m'"
    using m' by auto
next
  show char: "HasMethod inst n k \<longleftrightarrow>
        (\<exists>pre m post. chain_methods (cls inst) = pre @ m # post
            \<and> (\<forall>x\<in>set pre. name x \<noteq> n) \<and> name m = n \<and> length (formal_params m) = k)"
  proof
    assume "HasMethod inst n k"
    then obtain m where m: "find (\<lambda>m. name m = n) (chain_methods (cls inst)) = Some m"
        "length (formal_params m) = k"
      by (auto simp: HasMethod_def GetMethod_chain split: option.splits)
    from m(1) obtain pre post where "chain_methods (cls inst) = pre @ m # post"
        "\<forall>y\<in>set pre. name y \<noteq> n" "name m = n"
      unfolding find_first_split by blast
    then show "\<exists>pre m post. chain_methods (cls inst) = pre @ m # post
            \<and> (\<forall>x\<in>set pre. name x \<noteq> n) \<and> name m = n \<and> length (formal_params m) = k"
      using m(2) by blast
  next
    assume "\<exists>pre m post. chain_methods (cls inst) = pre @ m # post
            \<and> (\<forall>x\<in>set pre. name x \<noteq> n) \<and> name m = n \<and> length (formal_params m) = k"
    then obtain pre m post where h: "chain_methods (cls inst) = pre @ m # post"
        "\<forall>x\<in>set pre. name x \<noteq> n" "name m = n" "length (formal_params m) = k"
      by blast
    then have "find (\<lambda>m. name m = n) (chain_methods (cls inst)) = Some m"
      unfolding find_first_split by blast
    then show "HasMethod inst n k"
      using h(4) by (simp add: HasMethod_def GetMethod_chain)
  qed
next
  assume a: "(\<exists>m\<in>set (chain_methods (cls inst)). name m = n)
        \<and> (\<forall>m\<in>set (chain_methods (cls inst)). name m = n \<longrightarrow> length (formal_params m) = k)"
  then obtain m where m: "find (\<lambda>m. name m = n) (chain_methods (cls inst)) = Some m"
    by (cases "find (\<lambda>m. name m = n) (chain_methods (cls inst))") (auto simp: find_None_iff)
  then have "m \<in> set (chain_methods (cls inst))" "name m = n"
    by (auto simp: find_Some_iff)
  then have "length (formal_params m) = k" using a by blast
  then show "HasMethod inst n k"
    using m by (simp add: HasMethod_def GetMethod_chain)
qed

theorem method_lookup_by_name_child_first_witness:
  "GetMethod plain_child ''f'' = GetMethod overload_X ''f''
   \<and> GetMethod overriding_child ''f'' = Some override_g
   \<and> HasMethod (Instance_of overriding_child) ''f'' 1
   \<and> HasMethod (Instance_of plain_child) ''f'' 1"
  using method_lookup_by_name_child_first
          [where ms = "[]" and n = "''f''" and c = "''Y''" and p = overload_X
             and inst = "Instance_of plain_child" and k = 1 and par = None]
        method_lookup_by_name_child_first
          [where ms = "[override_g]" and n = "''f''" and c = "''Z''" and p = overload_X
             and inst = "Instance_of overriding_child" and k = 1 and par = "Some overload_X"]
  by (simp add: plain_child_def overriding_child_def overload_X_def override_g_def
        overload_f1_def overload_f2_def Instance_of_def HasMethod_def)

text \<open>
  Claim C1 as stated fails. The class \<^verbatim>\<open>X\<close> of \<^verbatim>\<open>TestMethodOverloading\<close> has the
  methods \<^verbatim>\<open>f(a)\<close> and \<^verbatim>\<open>f(a, b)\<close>, with different (name, arity) pairs; it defines
  \<^verbatim>\<open>f\<close> with exactly two formal parameters, and \<^verbatim>\<open>HasMethod("f", 2)\<close> is false, since
  the lookup stops at \<^verbatim>\<open>f(a)\<close>.
\<close>

theorem overloaded_arity_not_found:
  "distinct (map method_key (methods overload_X))
   \<and> overload_f2 \<in> set (chain_methods overload_X)
   \<and> method_key overload_f2 = (''f'', 2)
   \<and> \<not> HasMethod (Instance_of overload_X) ''f'' 2"
  by (simp add: overload_X_def overload_f1_def overload_f2_def method_key_def
        Instance_of_def HasMethod_def)

section \<open>Properties of the comparison helpers\<close>

text \<open>
  Claim C8. On a primitive value (\<^verbatim>\<open>Number\<close>, \<^verbatim>\<open>String\<close> or \<^verbatim>\<open>Bool\<close>) compared with
  itself, \<^verbatim>\<open>Equal\<close> returns true, \<^verbatim>\<open>Less\<close> returns false and \<^verbatim>\<open>LessOrEqual\<close>
  returns true; none of them throws or touches the context.
\<close>

theorem comparisons_on_primitives:
  "is_primitive x \<Longrightarrow>
     Equal exec x x w = Done True w
     \<and> Less exec x x w = Done False w
     \<and> LessOrEqual exec x x w = Done True w"
  by (cases x) (simp_all add: LessOrEqual_def)

theorem comparisons_on_primitives_witness:
  "is_primitive (Number 57)
   \<and> Equal (Execute 0) (Number 57) (Number 57) empty_world = Done True empty_world
   \<and> Less (Execute 0) (Number 57) (Number 57) empty_world = Done False empty_world
   \<and> LessOrEqual (Execute 0) (Number 57) (Number 57) empty_world = Done True empty_world
   \<and> is_primitive (String ''hello'')
   \<and> Equal (Execute 0) (String ''hello'') (String ''hello'') empty_world = Done True empty_world
   \<and> Less (Execute 0) (String ''hello'') (String ''hello'') empty_world = Done False empty_world
   \<and> is_primitive (Bool True)
   \<and> Less (Execute 0) (Bool True) (Bool True) empty_world = Done False empty_world"
  using comparisons_on_primitives [of "Number 57" "Execute 0" empty_world]
    comparisons_on_primitives [of "String ''hello''" "Execute 0" empty_world]
    comparisons_on_primitives [of "Bool True" "Execute 0" empty_world]
  by simp

text \<open>
  Claim C7. \<^verbatim>\<open>NotEqual\<close> is the negation of \<^verbatim>\<open>Equal\<close>, \<^verbatim>\<open>LessOrEqual\<close> is
  \<^verbatim>\<open>Less\<close> or else \<^verbatim>\<open>Equal\<close>, \<^verbatim>\<open>Greater\<close> is the negation of \<^verbatim>\<open>LessOrEqual\<close>
  and \<^verbatim>\<open>GreaterOrEqual\<close> is the negation of \<^verbatim>\<open>Less\<close>, for all holders and every
  context; an exception of the inner call passes through. Each composition runs the
  inner comparisons again, on the context the previous one left: on the instance of
  \<^verbatim>\<open>Noisy\<close> one \<^verbatim>\<open>LessOrEqual\<close> and one \<^verbatim>\<open>Greater\<close> each call \<^verbatim>\<open>__lt__\<close> and then
  \<^verbatim>\<open>__eq__\<close>.
\<close>

theorem derived_comparisons:
  "NotEqual exec lhs rhs w = map_outcome Not (Equal exec lhs rhs w)
   \<and> LessOrEqual exec lhs rhs w =
       bind (Less exec lhs rhs w) (\<lambda>lt w'. if lt then Done True w' else Equal exec lhs rhs w')
   \<and> Greater exec lhs rhs w = map_outcome Not (LessOrEqual exec lhs rhs w)
   \<and> GreaterOrEqual exec lhs rhs w = map_outcome Not (Less exec lhs rhs w)
   \<and> written_w (LessOrEqual (Execute 10) (ClassInstance 0) (Number 1) noisy_world)
       = Some (''lt'' @ [CHR 0x0A] @ ''eq'' @ [CHR 0x0A])
   \<and> written_w (Greater (Execute 10) (ClassInstance 0) (Number 1) noisy_world)
       = Some (''lt'' @ [CHR 0x0A] @ ''eq'' @ [CHR 0x0A])"
  by (simp add: NotEqual_def LessOrEqual_def Greater_def GreaterOrEqual_def
      noisy_world_def Noisy_def Instance_of_def HasMethod_def Call_def emplace_def put_def
      eval_nat_numeral)

section \<open>Properties of the statements\<close>

lemma MethodCall_not_instance:
  "Execute n object cl w = Done obj (cl', w') \<Longrightarrow> TryAs_ClassInstance obj = None \<Longrightarrow>
   Execute (Suc n) (MethodCall object method_name args) cl w = Done NoneObj (cl', w')"
  by (cases obj) simp_all

lemma MethodCall_no_method:
  "Execute n object cl w = Done (ClassInstance a) (cl', w') \<Longrightarrow> heap w' a = Some inst \<Longrightarrow>
   \<not> HasMethod inst method_name (length args) \<Longrightarrow>
   Execute (Suc n) (MethodCall object method_name args) cl w = Done NoneObj (cl', w')"
  by simp

lemma HasMethod_in_chain:
  assumes "HasMethod inst nm k"
  shows "\<exists>m\<in>set (chain_methods (cls inst)). name m = nm \<and> length (formal_params m) = k"
proof -
  from assms obtain m where m: "find (\<lambda>m. name m = nm) (chain_methods (cls inst)) = Some m"
      "length (formal_params m) = k"
    by (auto simp: HasMethod_def GetMethod_chain split: option.splits)
  then have "m \<in> set (chain_methods (cls inst))" "name m = nm"
    by (auto simp: find_Some_iff)
  then show ?thesis using m(2) by blast
qed

lemma Compound_loop_thrown:
  "Compound_loop exec pre cl w = Done u (cl1, w1) \<Longrightarrow> exec st cl1 w1 = Thrown e s \<Longrightarrow>
   Compound_loop exec (pre @ st # post) cl w = Thrown e s"
proof (induction pre arbitrary: cl w)
  case Nil
  then show ?case by simp
next
  case (Cons a pre)
  show ?case
  proof (cases "exec a cl w")
    case (Done v s')
    obtain cl' w' where s': "s' = (cl', w')" by (cases s')
    from Cons.prems(1) Done s' have "Compound_loop exec pre cl' w' = Done u (cl1, w1)" by simp
    from Cons.IH [OF this Cons.prems(2)] show ?thesis using Done s' by simp
  qed (use Cons.prems in simp_all)
qed

text \<open>
  Claim C5. With both operands present, \<^verbatim>\<open>or\<close> on a truthy left operand returns
  \<^verbatim>\<open>Bool(true)\<close> and \<^verbatim>\<open>and\<close> on a falsy left operand returns \<^verbatim>\<open>Bool(false)\<close>, in the
  closure and context that the left operand left behind, whatever the right operand is:
  the right operand is not run. Whenever \<^verbatim>\<open>or\<close> or \<^verbatim>\<open>and\<close> returns, it returns a
  \<^verbatim>\<open>Bool\<close>.
\<close>

theorem short_circuit:
  "(Execute n l cl w = Done v (cl', w') \<and> IsTrue v \<longrightarrow>
      Execute (Suc n) (Or (Some l) (Some r)) cl w = Done (Bool True) (cl', w'))
   \<and> (Execute n l cl w = Done v (cl', w') \<and> \<not> IsTrue v \<longrightarrow>
      Execute (Suc n) (And (Some l) (Some r)) cl w = Done (Bool False) (cl', w'))
   \<and> (Execute m (Or lhs rhs) cl w = Done u s \<longrightarrow> (\<exists>b. u = Bool b))
   \<and> (Execute m (And lhs rhs) cl w = Done u s \<longrightarrow> (\<exists>b. u = Bool b))"
proof (intro conjI impI)
  assume "Execute n l cl w = Done v (cl', w') \<and> IsTrue v"
  then show "Execute (Suc n) (Or (Some l) (Some r)) cl w = Done (Bool True) (cl', w')" by simp
next
  assume "Execute n l cl w = Done v (cl', w') \<and> \<not> IsTrue v"
  then show "Execute (Suc n) (And (Some l) (Some r)) cl w = Done (Bool False) (cl', w')" by simp
next
  assume a: "Execute m (Or lhs rhs) cl w = Done u s"
  show "\<exists>b. u = Bool b"
  proof (cases m)
    case 0
    then show ?thesis using a by simp
  next
    case (Suc k)
    show ?thesis
    proof (cases lhs)
      case None
      then show ?thesis using a Suc by (simp add: null_operands_def)
    next
      case L: (Some l)
      show ?thesis
      proof (cases rhs)
        case None
        then show ?thesis using a Suc L by (simp add: null_operands_def)
      next
        case R: (Some r)
        show ?thesis
        proof (cases "Execute k l cl w")
          case (Done lv ls)
          obtain cl1 w1 where ls: "ls = (cl1, w1)" by (cases ls)
          show ?thesis
          proof (cases "IsTrue lv")
            case True
            then show ?thesis using a Suc L R Done ls by auto
          next
            case False
            then show ?thesis using a Suc L R Done ls
              by (cases "Execute k r cl1 w1") (auto split: if_splits)
          qed
        qed (use a Suc L R in simp_all)
      qed
    qed
  qed
next
  assume a: "Execute m (And lhs rhs) cl w = Done u s"
  show "\<exists>b. u = Bool b"
  proof (cases m)
    case 0
    then show ?thesis using a by simp
  next
    case (Suc k)
    show ?thesis
    proof (cases lhs)
      case None
      then show ?thesis using a Suc by (simp add: null_operands_def)
    next
      case L: (Some l)
      show ?thesis
      proof (cases rhs)
        case None
        then show ?thesis using a Suc L by (simp add: null_operands_def)
      next
        case R: (Some r)
        show ?thesis
        proof (cases "Execute k l cl w")
          case (Done lv ls)
          obtain cl1 w1 where ls: "ls = (cl1, w1)" by (cases ls)
          show ?thesis
          proof (cases "IsTrue lv")
            case False
            then show ?thesis using a Suc L R Done ls by auto
          next
            case True
            then show ?thesis using a Suc L R Done ls
              by (cases "Execute k r cl1 w1") (auto split: if_splits)
          qed
        qed (use a Suc L R in simp_all)
      qed
    qed
  qed
qed

theorem short_circuit_witness:
  "Execute 1 (BoolLit True) empty_closure empty_world = Done (Bool True) (empty_closure, empty_world)
   \<and> IsTrue (Bool True)
   \<and> Execute 2 (Or (Some (BoolLit True)) (Some loud)) empty_closure empty_world
       = Done (Bool True) (empty_closure, empty_world)
   \<and> Execute 1 (BoolLit False) empty_closure empty_world = Done (Bool False) (empty_closure, empty_world)
   \<and> \<not> IsTrue (Bool False)
   \<and> Execute 2 (And (Some (BoolLit False)) (Some loud)) empty_closure empty_world
       = Done (Bool False) (empty_closure, empty_world)
   \<and> written (Execute 3 loud empty_closure empty_world) = Some (''Should not be executed'' @ [CHR 0x0A])"
  using short_circuit [of 1 "BoolLit True" empty_closure empty_world "Bool True"
      empty_closure empty_world loud]
    short_circuit [of 1 "BoolLit False" empty_closure empty_world "Bool False"
      empty_closure empty_world loud]
  by (simp add: numeral_2_eq_2 numeral_3_eq_3 loud_def put_def empty_world_def)

lemma first_child_thrown:
  assumes "first_child s = Some c" "Execute n c cl w = Thrown e st" "\<forall>b. s \<noteq> MethodBody b"
  shows "Execute (Suc n) s cl w = Thrown e st"
proof (cases s)
  case (NewInstance a args)
  then show ?thesis using assms by (cases args) simp_all
next
  case (Compound ss)
  then show ?thesis using assms by (cases ss) simp_all
next
  case (Print args)
  then show ?thesis using assms by (cases args) simp_all
next
  case (Add l r)
  then show ?thesis using assms by (cases l; cases r) simp_all
next
  case (Sub l r)
  then show ?thesis using assms by (cases l; cases r) simp_all
next
  case (Mult l r)
  then show ?thesis using assms by (cases l; cases r) simp_all
next
  case (Div l r)
  then show ?thesis using assms by (cases l; cases r) simp_all
next
  case (Or l r)
  then show ?thesis using assms by (cases l; cases r) simp_all
next
  case (And l r)
  then show ?thesis using assms by (cases l; cases r) simp_all
next
  case (Not_op a)
  then show ?thesis using assms by (cases a) simp_all
next
  case (Comparison cmp l r)
  then show ?thesis using assms by (cases l; cases r) simp_all
qed (use assms in simp_all)

text \<open>
  Claim C6. \<^verbatim>\<open>Return(expr)\<close> evaluates \<^verbatim>\<open>expr\<close> and throws the signal with the value.
  The signal of a statement passes a \<^verbatim>\<open>Compound\<close> (the statements behind it are not
  run) and an \<^verbatim>\<open>IfElse\<close> unchanged. A \<^verbatim>\<open>MethodBody\<close> turns the signal of its inner
  statement into the returned value, so that an outer \<^verbatim>\<open>MethodBody\<close> sees no signal;
  it returns the empty holder when the inner statement returns, and it lets a
  \<^verbatim>\<open>runtime_error\<close> pass. No other node catches the signal of the child it executes
  first.
\<close>

theorem return_signal:
  "(Execute n e cl w = Done v s \<longrightarrow>
      Execute (Suc n) (Return e) cl w = Thrown (RuntimeReturnExeption v) s)
   \<and> (Compound_loop (Execute n) pre cl w = Done () (cla, wa)
        \<and> Execute n st cla wa = Thrown (RuntimeReturnExeption v) s \<longrightarrow>
      Execute (Suc n) (Compound (pre @ st # post)) cl w = Thrown (RuntimeReturnExeption v) s)
   \<and> (Execute n c cl w = Thrown (RuntimeReturnExeption v) s \<longrightarrow>
      Execute (Suc n) (IfElse c t else_body) cl w = Thrown (RuntimeReturnExeption v) s)
   \<and> (Execute n c cl w = Done b (cla, wa) \<and> IsTrue b
        \<and> Execute n t cla wa = Thrown (RuntimeReturnExeption v) s \<longrightarrow>
      Execute (Suc n) (IfElse c t else_body) cl w = Thrown (RuntimeReturnExeption v) s)
   \<and> (Execute n c cl w = Done b (cla, wa) \<and> \<not> IsTrue b
        \<and> Execute n f cla wa = Thrown (RuntimeReturnExeption v) s \<longrightarrow>
      Execute (Suc n) (IfElse c t (Some f)) cl w = Thrown (RuntimeReturnExeption v) s)
   \<and> (Execute n inner cl w = Thrown (RuntimeReturnExeption v) s \<longrightarrow>
      Execute (Suc n) (MethodBody inner) cl w = Done v s
      \<and> Execute (Suc (Suc n)) (MethodBody (MethodBody inner)) cl w = Done NoneObj s)
   \<and> (Execute n inner cl w = Done v s \<longrightarrow>
      Execute (Suc n) (MethodBody inner) cl w = Done NoneObj s)
   \<and> (Execute n inner cl w = Thrown (runtime_error msg) s \<longrightarrow>
      Execute (Suc n) (MethodBody inner) cl w = Thrown (runtime_error msg) s)
   \<and> (first_child stmt = Some child \<and> (\<forall>inner. stmt \<noteq> MethodBody inner)
        \<and> Execute n child cl w = Thrown (RuntimeReturnExeption v) s \<longrightarrow>
      Execute (Suc n) stmt cl w = Thrown (RuntimeReturnExeption v) s)"
proof (intro conjI impI)
  assume "first_child stmt = Some child \<and> (\<forall>inner. stmt \<noteq> MethodBody inner)
        \<and> Execute n child cl w = Thrown (RuntimeReturnExeption v) s"
  then show "Execute (Suc n) stmt cl w = Thrown (RuntimeReturnExeption v) s"
    using first_child_thrown by blast
next
  assume "Compound_loop (Execute n) pre cl w = Done () (cla, wa)
        \<and> Execute n st cla wa = Thrown (RuntimeReturnExeption v) s"
  then have "Compound_loop (Execute n) (pre @ st # post) cl w = Thrown (RuntimeReturnExeption v) s"
    using Compound_loop_thrown by blast
  then show "Execute (Suc n) (Compound (pre @ st # post)) cl w = Thrown (RuntimeReturnExeption v) s"
    by simp
qed simp_all

theorem return_signal_witness:
  "Execute 1 (NumberLit 57) empty_closure empty_world = Done (Number 57) (empty_closure, empty_world)
   \<and> Execute 2 (Return (NumberLit 57)) empty_closure empty_world
       = Thrown (RuntimeReturnExeption (Number 57)) (empty_closure, empty_world)
   \<and> Compound_loop (Execute 2) [] empty_closure empty_world = Done () (empty_closure, empty_world)
   \<and> Execute 3 (Compound [Return (NumberLit 57), loud]) empty_closure empty_world
       = Thrown (RuntimeReturnExeption (Number 57)) (empty_closure, empty_world)
   \<and> Execute 3 (BoolLit True) empty_closure empty_world = Done (Bool True) (empty_closure, empty_world)
   \<and> IsTrue (Bool True)
   \<and> Execute 4 (IfElse (BoolLit True) (Compound [Return (NumberLit 57)]) None)
         empty_closure empty_world
       = Thrown (RuntimeReturnExeption (Number 57)) (empty_closure, empty_world)
   \<and> Execute 3 (MethodBody (Return (NumberLit 57))) empty_closure empty_world
       = Done (Number 57) (empty_closure, empty_world)
   \<and> Execute 4 (MethodBody (MethodBody (Return (NumberLit 57)))) empty_closure empty_world
       = Done NoneObj (empty_closure, empty_world)
   \<and> Execute 2 (MethodBody (NumberLit 57)) empty_closure empty_world
       = Done NoneObj (empty_closure, empty_world)
   \<and> first_child (Assignment ''x'' (Return (NumberLit 57))) = Some (Return (NumberLit 57))
   \<and> Execute 3 (Assignment ''x'' (Return (NumberLit 57))) empty_closure empty_world
       = Thrown (RuntimeReturnExeption (Number 57)) (empty_closure, empty_world)
   \<and> Execute 6 early_return empty_closure empty_world = Done (Number 57) (empty_closure, empty_world)"
proof -
  have e1: "Execute 1 (NumberLit 57) empty_closure empty_world
              = Done (Number 57) (empty_closure, empty_world)"
    by (simp add: eval_nat_numeral)
  have r2: "Execute 2 (Return (NumberLit 57)) empty_closure empty_world
              = Thrown (RuntimeReturnExeption (Number 57)) (empty_closure, empty_world)"
    using return_signal [where n = 1 and e = "NumberLit 57" and cl = empty_closure
        and w = empty_world and v = "Number 57" and s = "(empty_closure, empty_world)"] e1
    by (simp add: eval_nat_numeral)
  have c3: "Execute 3 (Compound [Return (NumberLit 57), loud]) empty_closure empty_world
              = Thrown (RuntimeReturnExeption (Number 57)) (empty_closure, empty_world)"
    using return_signal [where n = 2 and pre = "[]" and st = "Return (NumberLit 57)"
        and post = "[loud]" and cl = empty_closure and w = empty_world and cla = empty_closure
        and wa = empty_world and v = "Number 57" and s = "(empty_closure, empty_world)"] r2
    by (simp add: eval_nat_numeral)
  have t3: "Execute 3 (Compound [Return (NumberLit 57)]) empty_closure empty_world
              = Thrown (RuntimeReturnExeption (Number 57)) (empty_closure, empty_world)"
    by (simp add: eval_nat_numeral)
  have b3: "Execute 3 (BoolLit True) empty_closure empty_world
              = Done (Bool True) (empty_closure, empty_world)"
    by (simp add: eval_nat_numeral)
  have i4: "Execute 4 (IfElse (BoolLit True) (Compound [Return (NumberLit 57)]) None)
              empty_closure empty_world
              = Thrown (RuntimeReturnExeption (Number 57)) (empty_closure, empty_world)"
    using return_signal [where n = 3 and c = "BoolLit True" and b = "Bool True"
        and t = "Compound [Return (NumberLit 57)]" and else_body = None
        and cl = empty_closure and w = empty_world and cla = empty_closure
        and wa = empty_world and v = "Number 57" and s = "(empty_closure, empty_world)"] t3 b3
    by (simp add: eval_nat_numeral)
  have m3: "Execute 3 (MethodBody (Return (NumberLit 57))) empty_closure empty_world
              = Done (Number 57) (empty_closure, empty_world)
            \<and> Execute 4 (MethodBody (MethodBody (Return (NumberLit 57)))) empty_closure empty_world
              = Done NoneObj (empty_closure, empty_world)"
    using return_signal [where n = 2 and inner = "Return (NumberLit 57)"
        and cl = empty_closure and w = empty_world and v = "Number 57"
        and s = "(empty_closure, empty_world)"] r2
    by (simp add: eval_nat_numeral)
  have m2: "Execute 2 (MethodBody (NumberLit 57)) empty_closure empty_world
              = Done NoneObj (empty_closure, empty_world)"
    using return_signal [where n = 1 and inner = "NumberLit 57"
        and cl = empty_closure and w = empty_world and v = "Number 57"
        and s = "(empty_closure, empty_world)"] e1
    by (simp add: eval_nat_numeral)
  have a3: "Execute 3 (Assignment ''x'' (Return (NumberLit 57))) empty_closure empty_world
              = Thrown (RuntimeReturnExeption (Number 57)) (empty_closure, empty_world)"
    using return_signal [where n = 2 and stmt = "Assignment ''x'' (Return (NumberLit 57))"
        and child = "Return (NumberLit 57)" and cl = empty_closure and w = empty_world
        and v = "Number 57" and s = "(empty_closure, empty_world)"] r2
    by (simp add: eval_nat_numeral)
  have er: "Execute 6 early_return empty_closure empty_world
              = Done (Number 57) (empty_closure, empty_world)"
    by (simp add: early_return_def eval_nat_numeral)
  show ?thesis using e1 r2 c3 b3 i4 m3 m2 a3 er by simp
qed

text \<open>
  Claim C4. When the receiver evaluates to a value that is not a class instance, a
  \<^verbatim>\<open>MethodCall\<close> on it returns the empty holder, and a \<^verbatim>\<open>FieldAssignment\<close> through it
  throws \<^verbatim>\<open>runtime_error\<close>; the error ends an enclosing \<^verbatim>\<open>Compound\<close> and is not caught
  by a \<^verbatim>\<open>MethodBody\<close>.
\<close>

theorem dotted_access_on_non_instance:
  "(Execute n object cl w = Done obj (cl', w') \<and> TryAs_ClassInstance obj = None \<longrightarrow>
      Execute (Suc n) (MethodCall object method_name args) cl w = Done NoneObj (cl', w'))
   \<and> (VariableValue_Execute path cl w = Done obj () \<and> TryAs_ClassInstance obj = None \<longrightarrow>
      Execute (Suc n) (FieldAssignment path field_name rv) cl w
        = Thrown (runtime_error ''Cant find field'') (cl, w)
      \<and> Execute (Suc (Suc n)) (Compound (FieldAssignment path field_name rv # rest)) cl w
        = Thrown (runtime_error ''Cant find field'') (cl, w)
      \<and> Execute (Suc (Suc n)) (MethodBody (FieldAssignment path field_name rv)) cl w
        = Thrown (runtime_error ''Cant find field'') (cl, w))"
proof (intro conjI impI)
  assume "Execute n object cl w = Done obj (cl', w') \<and> TryAs_ClassInstance obj = None"
  then show "Execute (Suc n) (MethodCall object method_name args) cl w = Done NoneObj (cl', w')"
    using MethodCall_not_instance by blast
next
  assume a: "VariableValue_Execute path cl w = Done obj () \<and> TryAs_ClassInstance obj = None"
  then show fa: "Execute (Suc n) (FieldAssignment path field_name rv) cl w
        = Thrown (runtime_error ''Cant find field'') (cl, w)"
    by (cases obj) simp_all
  then show "Execute (Suc (Suc n)) (Compound (FieldAssignment path field_name rv # rest)) cl w
        = Thrown (runtime_error ''Cant find field'') (cl, w)"
    by simp
  from fa show "Execute (Suc (Suc n)) (MethodBody (FieldAssignment path field_name rv)) cl w
        = Thrown (runtime_error ''Cant find field'') (cl, w)"
    by simp
qed

theorem dotted_access_on_non_instance_witness:
  "Execute 1 (VariableValue [''x'']) number_closure empty_world
       = Done (Number 123) (number_closure, empty_world)
   \<and> TryAs_ClassInstance (Number 123) = None
   \<and> Execute 2 (MethodCall (VariableValue [''x'']) ''f'' []) number_closure empty_world
       = Done NoneObj (number_closure, empty_world)
   \<and> VariableValue_Execute [''x''] number_closure empty_world = Done (Number 123) ()
   \<and> Execute 2 (FieldAssignment [''x''] ''b'' (NumberLit 456)) number_closure empty_world
       = Thrown (runtime_error ''Cant find field'') (number_closure, empty_world)"
  using dotted_access_on_non_instance [of 1 "VariableValue [''x'']" number_closure empty_world
      "Number 123" number_closure empty_world "''f''" "[]" "[''x'']" "''b''" "NumberLit 456" "[]"]
  by (simp add: number_closure_def eval_nat_numeral)

text \<open>
  Claim C10. When the receiver of a \<^verbatim>\<open>MethodCall\<close> evaluates to a value that is not a
  class instance, or to an instance whose class chain has no method of that name with as
  many formal parameters as the call has arguments, the call returns the empty holder in
  the closure and context that the receiver left behind. This holds for all argument
  expressions, also for those that would print, assign, throw or not return: none of
  them is run.
\<close>

theorem arguments_not_executed:
  "Execute n object cl w = Done obj (cl', w')
   \<and> (TryAs_ClassInstance obj = None
      \<or> (\<exists>a inst. obj = ClassInstance a \<and> heap w' a = Some inst
            \<and> \<not> (\<exists>m\<in>set (chain_methods (cls inst)).
                    name m = method_name \<and> length (formal_params m) = length args)))
   \<longrightarrow> Execute (Suc n) (MethodCall object method_name args) cl w = Done NoneObj (cl', w')"
proof
  assume a: "Execute n object cl w = Done obj (cl', w')
   \<and> (TryAs_ClassInstance obj = None
      \<or> (\<exists>a inst. obj = ClassInstance a \<and> heap w' a = Some inst
            \<and> \<not> (\<exists>m\<in>set (chain_methods (cls inst)).
                    name m = method_name \<and> length (formal_params m) = length args)))"
  then have ex: "Execute n object cl w = Done obj (cl', w')" by simp
  from a have "TryAs_ClassInstance obj = None
      \<or> (\<exists>a inst. obj = ClassInstance a \<and> heap w' a = Some inst
            \<and> \<not> (\<exists>m\<in>set (chain_methods (cls inst)).
                    name m = method_name \<and> length (formal_params m) = length args))"
    by simp
  then show "Execute (Suc n) (MethodCall object method_name args) cl w = Done NoneObj (cl', w')"
  proof (elim disjE exE conjE)
    assume prim: "TryAs_ClassInstance obj = None"
    show ?thesis by (rule MethodCall_not_instance [OF ex prim])
  next
    fix a inst
    assume h: "obj = ClassInstance a" "heap w' a = Some inst"
      "\<not> (\<exists>m\<in>set (chain_methods (cls inst)).
                    name m = method_name \<and> length (formal_params m) = length args)"
    have "\<not> HasMethod inst method_name (length args)"
    proof
      assume "HasMethod inst method_name (length args)"
      from HasMethod_in_chain [OF this] h(3) show False by simp
    qed
    from ex h(1) have "Execute n object cl w = Done (ClassInstance a) (cl', w')" by simp
    from MethodCall_no_method [OF this h(2) \<open>\<not> HasMethod inst method_name (length args)\<close>]
    show ?thesis .
  qed
qed

theorem arguments_not_executed_witness:
  "Execute 1 (VariableValue [''x'']) number_closure empty_world
       = Done (Number 123) (number_closure, empty_world)
   \<and> TryAs_ClassInstance (Number 123) = None
   \<and> Execute 2 (MethodCall (VariableValue [''x'']) ''f'' [loud]) number_closure empty_world
       = Done NoneObj (number_closure, empty_world)
   \<and> Execute 1 (VariableValue [''sink'']) sink_closure sink_world
       = Done (ClassInstance 0) (sink_closure, sink_world)
   \<and> heap sink_world 0 = Some (Instance_of Sink)
   \<and> Execute 2 (MethodCall (VariableValue [''sink'']) ''apply'' [loud]) sink_closure sink_world
       = Done NoneObj (sink_closure, sink_world)
   \<and> written (Execute 3 loud sink_closure sink_world) = Some (''Should not be executed'' @ [CHR 0x0A])"
  using arguments_not_executed [of 1 "VariableValue [''x'']" number_closure empty_world
      "Number 123" number_closure empty_world "''f''" "[loud]"]
    arguments_not_executed [of 1 "VariableValue [''sink'']" sink_closure sink_world
      "ClassInstance 0" sink_closure sink_world "''apply''" "[loud]"]
  by (simp add: number_closure_def sink_closure_def sink_world_def Sink_def Instance_of_def
      HasMethod_def loud_def put_def eval_nat_numeral)

text \<open>The world of \<open>factory_program\<close> is the one that building its two nodes leaves.\<close>

lemma factory_world_built:
  "snd (NewInstance_node Factory []
      (snd (ClassDefinition_node 1 Factory
        (snd (NewInstance_node Box [VariableValue [''flag'']]
          (snd (ClassDefinition_node 0 Box empty_world))))))) = factory_world
   \<and> fst (NewInstance_node Box [VariableValue [''flag'']]
          (snd (ClassDefinition_node 0 Box empty_world)))
       = NewInstance 0 [VariableValue [''flag'']]
   \<and> fst (NewInstance_node Factory []
      (snd (ClassDefinition_node 1 Factory
        (snd (NewInstance_node Box [VariableValue [''flag'']]
          (snd (ClassDefinition_node 0 Box empty_world))))))) = NewInstance 1 []"
  by (simp add: NewInstance_node_def ClassDefinition_node_def Own_def empty_world_def
      factory_world_def)

text \<open>
  Claim C3 fails on the code. \<^verbatim>\<open>NewInstance::Execute\<close> calls \<^verbatim>\<open>__init__\<close> on the
  instance that the node keeps and returns a copy of it, so the fields written by one
  execution are still there at the next: in \<open>factory_program\<close> the second \<^verbatim>\<open>Box\<close> is made
  with \<^verbatim>\<open>flag = False\<close>, its \<^verbatim>\<open>__init__\<close> assigns nothing, and \<^verbatim>\<open>print b.v\<close> writes 1.
  The two instances are different objects.
\<close>

theorem NewInstance_fields_leak:
  "written (Execute 20 factory_program empty_closure factory_world) = Some (''1'' @ [CHR 0x0A])
   \<and> bound (Execute 20 factory_program empty_closure factory_world) ''a'' = Some (ClassInstance 3)
   \<and> bound (Execute 20 factory_program empty_closure factory_world) ''b'' = Some (ClassInstance 4)"
  by (simp add: factory_program_def factory_world_def empty_closure_def Box_def Factory_def
      Instance_of_def HasMethod_def Call_def Own_def put_def emplace_def show_int_def
      eval_nat_numeral)

section \<open>Properties of the lexer\<close>

subsection \<open>String literals\<close>

lemma ReadString_loop_eof:
  "eofbit input \<Longrightarrow> ReadString_loop pred input result c = (input, result, c)"
  by (subst ReadString_loop.simps) simp

lemma ReadString_loop_some:
  "ReadString_loop pred \<lparr>chars = a # cs, eofbit = False\<rparr> result c =
     (if \<not> pred a then (\<lparr>chars = cs, eofbit = False\<rparr>, result, a)
      else if a = CHR 0x5C then
        (let ch = to_char (fst (get \<lparr>chars = cs, eofbit = False\<rparr>));
             input2 = snd (get \<lparr>chars = cs, eofbit = False\<rparr>) in
         if ch \<in> SPECIAL_SYMBOLS
         then ReadString_loop pred input2
                (result @ [if ch = CHR ''n'' then CHR 0x0A
                           else if ch = CHR ''t'' then CHR 0x09 else ch]) a
         else ReadString_loop pred input2 result a)
      else ReadString_loop pred \<lparr>chars = cs, eofbit = False\<rparr> (result @ [a]) a)"
  by (subst ReadString_loop.simps) (simp add: get_def to_char_def Let_def)

lemma ReadString_loop_none:
  "ReadString_loop pred \<lparr>chars = [], eofbit = False\<rparr> result c =
     (if \<not> pred (CHR 0xFF) then (at_end, result, CHR 0xFF)
      else (at_end, result @ [CHR 0xFF], CHR 0xFF))"
  by (subst ReadString_loop.simps)
     (simp add: get_def to_char_def Let_def at_end_def ReadString_loop_eof SPECIAL_SYMBOLS_def)

lemma ReadString_loop_escape:
  "pred (CHR 0x5C) \<Longrightarrow>
   ReadString_loop pred \<lparr>chars = CHR 0x5C # d # ds, eofbit = False\<rparr> result c =
     ReadString_loop pred \<lparr>chars = ds, eofbit = False\<rparr>
       (if d \<in> SPECIAL_SYMBOLS
        then result @ [if d = CHR ''n'' then CHR 0x0A else if d = CHR ''t'' then CHR 0x09 else d]
        else result) (CHR 0x5C)"
  by (simp add: ReadString_loop_some get_def to_char_def Let_def)

lemma ReadString_loop_escape_end:
  "pred (CHR 0x5C) \<Longrightarrow>
   ReadString_loop pred \<lparr>chars = [CHR 0x5C], eofbit = False\<rparr> result c = (at_end, result, CHR 0x5C)"
  by (simp add: ReadString_loop_some get_def to_char_def Let_def SPECIAL_SYMBOLS_def
      ReadString_loop_eof at_end_def)

lemma ReadString_loop_plain:
  "pred a \<Longrightarrow> a \<noteq> CHR 0x5C \<Longrightarrow>
   ReadString_loop pred \<lparr>chars = a # cs, eofbit = False\<rparr> result c =
     ReadString_loop pred \<lparr>chars = cs, eofbit = False\<rparr> (result @ [a]) a"
  by (simp add: ReadString_loop_some)

lemma ReadString_loop_unterminated:
  "\<not> terminated q rest \<Longrightarrow> q \<noteq> CHR 0xFF \<Longrightarrow> q \<noteq> CHR 0x5C \<Longrightarrow>
   \<exists>result' c'. ReadString_loop (\<lambda>c. c \<noteq> q) \<lparr>chars = rest, eofbit = False\<rparr> result c
       = (at_end, result', c') \<and> c' \<noteq> q"
proof (induction q rest arbitrary: result c rule: terminated.induct)
  case (1 q)
  then show ?case by (simp add: ReadString_loop_none)
next
  case (2 q a)
  then have aq: "a \<noteq> q" by simp
  show ?case
  proof (cases "a = CHR 0x5C")
    case True
    then show ?thesis using 2 by (simp add: ReadString_loop_escape_end)
  next
    case False
    then show ?thesis using 2 aq by (simp add: ReadString_loop_plain ReadString_loop_none)
  qed
next
  case (3 q a d ds)
  from "3.prems" have aq: "a \<noteq> q" by (simp split: if_splits)
  show ?case
  proof (cases "a = CHR 0x5C")
    case True
    with "3.prems" aq have nt: "\<not> terminated q ds" by simp
    have "CHR 0x5C \<noteq> q" using "3.prems"(3) by simp
    then have "ReadString_loop (\<lambda>c. c \<noteq> q) \<lparr>chars = a # d # ds, eofbit = False\<rparr> result c =
      ReadString_loop (\<lambda>c. c \<noteq> q) \<lparr>chars = ds, eofbit = False\<rparr>
       (if d \<in> SPECIAL_SYMBOLS
        then result @ [if d = CHR ''n'' then CHR 0x0A else if d = CHR ''t'' then CHR 0x09 else d]
        else result) (CHR 0x5C)"
      unfolding True by (rule ReadString_loop_escape)
    then show ?thesis using "3.IH"(1) [OF aq True nt "3.prems"(2,3)] by simp
  next
    case False
    with "3.prems" aq have nt: "\<not> terminated q (d # ds)" by simp
    have "ReadString_loop (\<lambda>c. c \<noteq> q) \<lparr>chars = a # d # ds, eofbit = False\<rparr> result c =
      ReadString_loop (\<lambda>c. c \<noteq> q) \<lparr>chars = d # ds, eofbit = False\<rparr> (result @ [a]) a"
      using aq False by (simp add: ReadString_loop_plain)
    then show ?thesis using "3.IH"(2) [OF aq False nt "3.prems"(2,3)] by simp
  qed
qed

lemma ReadString_unterminated:
  assumes "\<not> terminated q rest" "q \<noteq> CHR 0xFF" "q \<noteq> CHR 0x5C"
  shows "\<exists>dest. ReadString (\<lambda>c. c \<noteq> q) \<lparr>chars = rest, eofbit = False\<rparr> = (at_end, dest)"
proof -
  from ReadString_loop_unterminated [OF assms]
  obtain result' c' where
    "ReadString_loop (\<lambda>c. c \<noteq> q) \<lparr>chars = rest, eofbit = False\<rparr> [] (CHR 0xFF) = (at_end, result', c')"
    "c' \<noteq> q" by blast
  then show ?thesis by (simp add: ReadString_def)
qed

lemma LoadString_unterminated:
  assumes "q = CHR 0x22 \<or> q = CHR 0x27" "\<not> terminated q rest"
  shows "\<exists>dest. LoadString (stringstream (q # rest)) lx = (at_end, push_back (String_t dest) lx)"
proof -
  from assms(1) have q: "q \<noteq> CHR 0xFF" "q \<noteq> CHR 0x5C" by auto
  from ReadString_unterminated [OF assms(2) q] obtain dest where
    "ReadString (\<lambda>c. c \<noteq> q) \<lparr>chars = rest, eofbit = False\<rparr> = (at_end, dest)" by blast
  then have "LoadString (stringstream (q # rest)) lx = (at_end, push_back (String_t dest) lx)"
    by (simp add: LoadString_def stringstream_def get_def to_char_def)
  then show ?thesis by blast
qed

lemma next_is_at_end: "\<not> next_is P at_end"
  by (simp add: next_is_def peek_def at_end_def)

lemma peeked_at_end: "peeked at_end = at_end"
  by (simp add: peeked_def peek_def at_end_def)

lemma LoadTokens_at_end: "LoadTokens fuel at_end lx = Lexed (at_end, lx)"
  by (subst LoadTokens.simps) (simp add: at_end_def)

text \<open>
  Claim C2, as the code has it. The lexer has no error for a string literal that is not
  closed. When the rest of a line is an opening quote and characters among which no
  closing quote ends the literal, \<^verbatim>\<open>LoadString\<close> reads to the end of the line and
  pushes one \<^verbatim>\<open>String\<close> token, and \<^verbatim>\<open>LoadTokens\<close> returns with it.
\<close>

theorem unterminated_string_is_read:
  assumes "q = CHR 0x22 \<or> q = CHR 0x27" "\<not> terminated q rest"
  shows "\<exists>dest. LoadString (stringstream (q # rest)) lx = (at_end, push_back (String_t dest) lx)
           \<and> LoadTokens (Suc fuel) (stringstream (q # rest)) lx
               = Lexed (at_end, push_back (String_t dest) lx)"
proof -
  from LoadString_unterminated [OF assms] obtain dest where
    d: "LoadString (stringstream (q # rest)) lx = (at_end, push_back (String_t dest) lx)" by blast
  have ni: "\<And>P. next_is P (stringstream (q # rest)) = P q"
    by (simp add: next_is_def peek_def stringstream_def)
  have pd: "peeked (stringstream (q # rest)) = stringstream (q # rest)"
    by (simp add: peeked_def peek_def stringstream_def)
  have nq: "\<not> isdigit q" "q \<noteq> CHR '' ''" "q \<noteq> CHR ''#''"
    using assms(1) by (auto simp: isdigit_def)
  have turn: "LoadTokens_turn (stringstream (q # rest)) lx
                = Lexed (False, at_end, push_back (String_t dest) lx)"
    unfolding LoadTokens_turn_def Let_def
    using assms(1) by (simp add: ni pd nq d next_is_at_end peeked_at_end)
  have e: "\<not> eofbit (stringstream (q # rest))" by (simp add: stringstream_def)
  have "LoadTokens (Suc fuel) (stringstream (q # rest)) lx
               = Lexed (at_end, push_back (String_t dest) lx)"
    by (subst LoadTokens.simps) (simp add: turn e LoadTokens_at_end)
  with d show ?thesis by blast
qed

theorem unterminated_string_is_read_witness:
  "\<not> terminated (CHR 0x22) ''abc''
   \<and> LoadString (stringstream (CHR 0x22 # ''abc'')) new_Lexer
       = (at_end, push_back (String_t (''abc'' @ [CHR 0xFF])) new_Lexer)
   \<and> LoadTokens 1 (stringstream (CHR 0x22 # ''abc'')) new_Lexer
       = Lexed (at_end, push_back (String_t (''abc'' @ [CHR 0xFF])) new_Lexer)"
proof -
  have nt: "\<not> terminated (CHR 0x22) ''abc''" by simp
  have ls: "LoadString (stringstream (CHR 0x22 # ''abc'')) new_Lexer
       = (at_end, push_back (String_t (''abc'' @ [CHR 0xFF])) new_Lexer)"
    by (simp add: LoadString_def ReadString_def stringstream_def get_def to_char_def
        ReadString_loop_some ReadString_loop_none)
  from unterminated_string_is_read [of "CHR 0x22" "''abc''" new_Lexer 0] nt ls
  show ?thesis by (auto simp: push_back_def)
qed

text \<open>
  Claim C2 as stated fails: on the line \<^verbatim>\<open>x = "abc\<close> the lexer returns a token vector
  with a \<^verbatim>\<open>String\<close> token for the open literal, and throws nothing.
\<close>

theorem unterminated_string_is_a_token:
  "\<not> terminated (CHR 0x22) ''abc''
   \<and> toks (Lexer_of 50 unterminated_line)
       = Some [Id_t ''x'', Char_t CHR ''='', String_t (''abc'' @ [CHR 0xFF]), Newline_t, Eof_t]"
  by code_simp

subsection \<open>Indentation\<close>

lemma lexer_inv_layout: "layout lx' = layout lx \<Longrightarrow> lexer_inv lx' = lexer_inv lx"
  by (simp add: layout_def lexer_inv_def)

lemma layout_push_back:
  "t \<noteq> Indent_t \<Longrightarrow> t \<noteq> Dedent_t \<Longrightarrow> layout (push_back t lx) = layout lx"
  by (simp add: layout_def push_back_def indents_def dedents_def)

lemma LoadIndent_inv: "lexer_inv lx \<Longrightarrow> lexer_inv (LoadIndent current_indent lx)"
proof (induction current_indent lx rule: LoadIndent.induct)
  case (1 current_indent lx)
  show ?case
  proof (cases "indent_size lx < current_indent")
    case True
    have "lexer_inv (push_back Indent_t (lx\<lparr>indent_size := indent_size lx + 2\<rparr>))"
      using "1.prems" by (simp add: lexer_inv_def push_back_def indents_def dedents_def)
    from "1.IH" [OF True this] show ?thesis
      by (subst LoadIndent.simps) (simp add: True)
  next
    case False
    then show ?thesis using "1.prems" by (subst LoadIndent.simps) simp
  qed
qed

lemma LoadDedent_inv: "lexer_inv lx \<Longrightarrow> lexer_inv (LoadDedent current_indent lx)"
proof (induction current_indent lx rule: LoadDedent.induct)
  case (1 current_indent lx)
  show ?case
  proof (cases "indent_size lx > current_indent")
    case True
    from "1.prems" True have "2 \<le> indent_size lx"
      by (auto simp: lexer_inv_def elim!: evenE)
    then have "lexer_inv (push_back Dedent_t (lx\<lparr>indent_size := indent_size lx - 2\<rparr>))"
      using "1.prems" by (simp add: lexer_inv_def push_back_def indents_def dedents_def)
    from "1.IH" [OF True this] show ?thesis
      by (subst LoadDedent.simps) (simp add: True)
  next
    case False
    then show ?thesis using "1.prems" by (subst LoadDedent.simps) simp
  qed
qed

lemma LoadDedent_reaches: "indent_size (LoadDedent current_indent lx) \<le> current_indent"
proof (induction current_indent lx rule: LoadDedent.induct)
  case (1 current_indent lx)
  show ?case
  proof (cases "indent_size lx > current_indent")
    case True
    from "1.IH" [OF True] show ?thesis
      by (subst LoadDedent.simps) (simp add: True)
  next
    case False
    then show ?thesis by (subst LoadDedent.simps) simp
  qed
qed

lemma KEY_WORDS_TOKEN_layout:
  "KEY_WORDS_TOKEN word = Some t \<Longrightarrow> t \<noteq> Indent_t \<and> t \<noteq> Dedent_t"
  by (auto simp: KEY_WORDS_TOKEN_def split: if_splits)

lemma SPECIAL_OPERATORS_TOKEN_layout:
  "SPECIAL_OPERATORS_TOKEN sign = Some t \<Longrightarrow> t \<noteq> Indent_t \<and> t \<noteq> Dedent_t"
  by (auto simp: SPECIAL_OPERATORS_TOKEN_def split: if_splits)

lemma LoadNumber_layout:
  "LoadNumber input lx = Lexed (input', lx') \<Longrightarrow> layout lx' = layout lx"
  by (cases "stoi (snd (ReadString isdigit input))")
     (auto simp: LoadNumber_def layout_push_back split: prod.splits)

lemma LoadString_layout: "layout (snd (LoadString input lx)) = layout lx"
  by (simp add: LoadString_def Let_def layout_push_back split: prod.splits)

lemma LoadWord_layout: "layout (snd (LoadWord input lx)) = layout lx"
  by (auto simp: LoadWord_def layout_push_back dest: KEY_WORDS_TOKEN_layout
      split: prod.splits option.splits)

lemma LoadChar_layout: "layout (LoadChar c lx) = layout lx"
  by (simp add: LoadChar_def layout_push_back)

lemma LoadSign_layout:
  "LoadSign input lx = Lexed (input', lx') \<Longrightarrow> layout lx' = layout lx"
  by (auto simp: LoadSign_def Let_def LoadChar_layout layout_push_back
      dest: SPECIAL_OPERATORS_TOKEN_layout split: if_splits option.splits)

lemma LoadTokens_turn_layout:
  assumes "LoadTokens_turn input lx = Lexed (b, input', lx')"
  shows "layout lx' = layout lx"
proof -
  define in1 where "in1 = (if next_is (\<lambda>c. c = CHR '' '') input then ignore (peeked input)
                 else peeked input)"
  show ?thesis
  proof (cases "next_is (\<lambda>c. c = CHR ''#'') in1")
    case True
    then show ?thesis using assms by (simp add: LoadTokens_turn_def in1_def Let_def)
  next
    case False
    define r2 where "r2 = (if next_is isdigit (peeked in1) then LoadNumber (peeked in1) lx
                  else Lexed (peeked in1, lx))"
    show ?thesis
    proof (cases r2)
      case (Lexed p2)
      obtain in2 lx2 where p2: "p2 = (in2, lx2)" by (cases p2)
      have l2: "layout lx2 = layout lx"
        using Lexed p2 by (auto simp: r2_def LoadNumber_layout split: if_splits)
      define p3 where "p3 = (if next_is (\<lambda>c. c = CHR 0x22 \<or> c = CHR 0x27) in2
              then LoadString (peeked in2) lx2 else (peeked in2, lx2))"
      obtain in3 lx3 where p3': "p3 = (in3, lx3)" by (cases p3)
      have l3: "layout lx3 = layout lx2"
        using p3' LoadString_layout [of "peeked in2" lx2] by (auto simp: p3_def split: if_splits)
      define p4 where "p4 = (if next_is (\<lambda>c. c = CHR ''_'' \<or> isalpha c) in3
              then LoadWord (peeked in3) lx3 else (peeked in3, lx3))"
      obtain in4 lx4 where p4': "p4 = (in4, lx4)" by (cases p4)
      have l4: "layout lx4 = layout lx3"
        using p4' LoadWord_layout [of "peeked in3" lx3] by (auto simp: p4_def split: if_splits)
      define r5 where "r5 = (if next_is IsSpecialChar in4 then
                    (if next_is (\<lambda>c. c \<in> SPECIAL_OPERATORS) (peeked in4)
                     then LoadSign (peeked in4) lx4
                     else Lexed (snd (get (peeked in4)),
                                 LoadChar (to_char (fst (get (peeked in4)))) lx4))
                  else Lexed (peeked in4, lx4))"
      have unfold: "LoadTokens_turn input lx = lex_bind r5 (\<lambda>(in5, lx5). Lexed (False, in5, lx5))"
        using False Lexed p2 p3' p4'
        by (simp add: LoadTokens_turn_def Let_def in1_def [symmetric] r2_def [symmetric]
            p3_def [symmetric] p4_def [symmetric] r5_def [symmetric])
      show ?thesis
      proof (cases r5)
        case L5: (Lexed p5)
        obtain in5 lx5 where p5: "p5 = (in5, lx5)" by (cases p5)
        have l5: "layout lx5 = layout lx4"
          using L5 p5 by (auto simp: r5_def LoadSign_layout LoadChar_layout split: if_splits)
        from unfold L5 p5 assms have "lx' = lx5" by simp
        then show ?thesis using l2 l3 l4 l5 by simp
      qed (use unfold assms in simp_all)
    next
      case out_of_range
      then show ?thesis using assms False
        by (simp add: LoadTokens_turn_def Let_def in1_def [symmetric] r2_def [symmetric])
    next
      case invalid_argument
      then show ?thesis using assms False
        by (simp add: LoadTokens_turn_def Let_def in1_def [symmetric] r2_def [symmetric])
    next
      case OutOfFuel
      then show ?thesis using assms False
        by (simp add: LoadTokens_turn_def Let_def in1_def [symmetric] r2_def [symmetric])
    qed
  qed
qed

lemma LoadTokens_layout:
  "LoadTokens fuel input lx = Lexed (input', lx') \<Longrightarrow> layout lx' = layout lx"
proof (induction fuel arbitrary: input lx)
  case 0
  then show ?case by (subst (asm) LoadTokens.simps) (simp split: if_splits)
next
  case (Suc k)
  show ?case
  proof (cases "eofbit input")
    case True
    then show ?thesis using Suc.prems by (subst (asm) LoadTokens.simps) simp
  next
    case False
    show ?thesis
    proof (cases "LoadTokens_turn input lx")
      case (Lexed p)
      obtain b in1 lx1 where p: "p = (b, in1, lx1)" by (cases p)
      have l1: "layout lx1 = layout lx" using Lexed p LoadTokens_turn_layout by blast
      show ?thesis
      proof (cases b)
        case True
        then have "lx' = lx1"
          using Suc.prems False Lexed p by (subst (asm) LoadTokens.simps) simp
        then show ?thesis using l1 by simp
      next
        case nb: False
        then have "LoadTokens k in1 lx1 = Lexed (input', lx')"
          using Suc.prems False Lexed p by (subst (asm) LoadTokens.simps) simp
        from Suc.IH [OF this] l1 show ?thesis by simp
      qed
    qed (use Suc.prems False in \<open>subst (asm) LoadTokens.simps, simp\<close>)+
  qed
qed

lemma LoadTab_inv: "lexer_inv lx \<Longrightarrow> lexer_inv (snd (LoadTab input lx))"
  by (simp add: LoadTab_def LoadIndent_inv LoadDedent_inv split: prod.splits)

lemma LoadEndl_layout: "layout (LoadEndl lx) = layout lx"
  by (simp add: LoadEndl_def layout_push_back)

lemma ParseString_inv:
  "lexer_inv lx \<Longrightarrow> ParseString fuel input lx = Lexed (input', lx') \<Longrightarrow> lexer_inv lx'"
proof -
  assume inv: "lexer_inv lx" and ps: "ParseString fuel input lx = Lexed (input', lx')"
  obtain in1 lx1 where lt: "LoadTab input lx = (in1, lx1)" by (cases "LoadTab input lx")
  then have "lexer_inv lx1" using LoadTab_inv [OF inv, of input] by simp
  moreover have "LoadTokens fuel in1 lx1 = Lexed (input', lx')"
    using ps lt by (simp add: ParseString_def)
  ultimately show ?thesis using LoadTokens_layout lexer_inv_layout by blast
qed

lemma ParseLines_inv:
  "lexer_inv lx \<Longrightarrow> ParseLines fuel lines lx = Lexed lx' \<Longrightarrow> lexer_inv lx'"
proof (induction lines arbitrary: lx)
  case Nil
  then show ?case by simp
next
  case (Cons line rest)
  show ?case
  proof (cases "StringIsComment line")
    case True
    then show ?thesis using Cons by simp
  next
    case False
    show ?thesis
    proof (cases "ParseString fuel (stringstream line) lx")
      case (Lexed p)
      obtain in1 lx1 where p: "p = (in1, lx1)" by (cases p)
      have "lexer_inv lx1" using ParseString_inv [OF Cons.prems(1)] Lexed p by blast
      then have "lexer_inv (LoadEndl lx1)" using LoadEndl_layout lexer_inv_layout by blast
      moreover have "ParseLines fuel rest (LoadEndl lx1) = Lexed lx'"
        using Cons.prems(2) False Lexed p by simp
      ultimately show ?thesis using Cons.IH by blast
    qed (use Cons.prems False in simp_all)
  qed
qed

lemma new_Lexer_inv: "lexer_inv new_Lexer"
  by (simp add: lexer_inv_def new_Lexer_def indents_def dedents_def)

text \<open>
  The constructor does not return on every input: \<^verbatim>\<open>LoadTokens\<close> reads nothing at a
  character such as \<^verbatim>\<open>|\<close> and never ends, and \<^verbatim>\<open>stoi\<close> throws on a number beyond
  \<^verbatim>\<open>int\<close>.
\<close>

lemma LoadTokens_turn_bar:
  "LoadTokens_turn \<lparr>chars = CHR ''|'' # rest, eofbit = False\<rparr> lx
     = Lexed (False, \<lparr>chars = CHR ''|'' # rest, eofbit = False\<rparr>, lx)"
  by (simp add: LoadTokens_turn_def Let_def next_is_def peeked_def peek_def isdigit_def
      isalpha_def IsSpecialChar_def)

lemma LoadTokens_bar:
  "LoadTokens fuel \<lparr>chars = CHR ''|'' # rest, eofbit = False\<rparr> lx = OutOfFuel"
proof (induction fuel)
  case 0
  show ?case by (subst LoadTokens.simps) simp
next
  case (Suc k)
  show ?case by (subst LoadTokens.simps) (simp add: LoadTokens_turn_bar Suc)
qed

lemma lexing_may_not_return: "Lexer_of fuel ''|'' = OutOfFuel"
  by (simp add: Lexer_of_def ParseTextOnTokens_def ParseString_def LoadTab_def next_is_def
      peeked_def peek_def stringstream_def LoadTokens_bar)

lemma lexing_may_throw: "Lexer_of 5 ''2147483648'' = out_of_range"
  by code_simp

text \<open>
  Claim C9. When the constructor of the lexer returns, its token vector holds as many
  \<^verbatim>\<open>Indent\<close> as \<^verbatim>\<open>Dedent\<close> tokens, and its last token is \<^verbatim>\<open>Eof\<close>.
\<close>

theorem indents_balance_and_eof:
  assumes "Lexer_of fuel input = Lexed lx"
  shows "count_list (tokens lx) Indent_t = count_list (tokens lx) Dedent_t
         \<and> tokens lx \<noteq> [] \<and> last (tokens lx) = Eof_t"
proof -
  from assms obtain lx1 where
    pl: "ParseLines fuel (getlines [] input) new_Lexer = Lexed lx1" and
    lx: "lx = NextToken (LoadEof (LoadDedent 0 lx1))"
    by (cases "ParseLines fuel (getlines [] input) new_Lexer")
       (auto simp: Lexer_of_def ParseTextOnTokens_def)
  have "lexer_inv lx1" using ParseLines_inv [OF new_Lexer_inv pl] .
  then have inv: "lexer_inv (LoadDedent 0 lx1)" by (rule LoadDedent_inv)
  have "indent_size (LoadDedent 0 lx1) = 0" using LoadDedent_reaches [of 0 lx1] by simp
  with inv have bal: "indents (LoadDedent 0 lx1) = dedents (LoadDedent 0 lx1)"
    by (simp add: lexer_inv_def)
  have tk: "tokens lx = tokens (LoadDedent 0 lx1) @ [Eof_t]"
    by (simp add: lx NextToken_def LoadEof_def push_back_def)
  show ?thesis using bal by (simp add: tk indents_def dedents_def)
qed

theorem indents_balance_and_eof_witness:
  "Lexer_of 10 small_program = Lexed small_lexer
   \<and> count_list (tokens small_lexer) Indent_t = 1
   \<and> count_list (tokens small_lexer) Dedent_t = 1
   \<and> last (tokens small_lexer) = Eof_t"
proof -
  have h: "Lexer_of 10 small_program = Lexed small_lexer" by code_simp
  from indents_balance_and_eof [OF h] h show ?thesis by (simp add: small_lexer_def)
qed

end
